theory Spec2Isabelle
  imports Complex_Main
begin

section \<open>Tensors, errors and the torch operations the two models call\<close>

text \<open>
  The two scoring models (\<^verbatim>\<open>poem/models/unimodal/rescal.py\<close> and
  \<^verbatim>\<open>poem/models/unimodal/trans_r.py\<close>) are written against torch tensors.
  A float tensor of rank one, two or three is a (nested) list of reals; floating-point
  rounding is not modelled, every operation is the exact real one.  A Python exception
  is a value of type \<open>error\<close>, carried in the left summand of the result.
\<close>

datatype error =
    TypeError    \<comment> \<open>calling a table that is still \<^verbatim>\<open>None\<close>\<close>
  | AttributeError   \<comment> \<open>reading \<^verbatim>\<open>.weight\<close> of a table that is still \<^verbatim>\<open>None\<close>\<close>
  | IndexError   \<comment> \<open>an id outside its embedding table\<close>
  | ShapeError   \<comment> \<open>a \<^verbatim>\<open>view\<close>, \<^verbatim>\<open>@\<close> or broadcast whose shapes do not fit\<close>

type_synonym vec = "real list"
type_synonym tensor2 = "real list list"
type_synonym tensor3 = "real list list list"

definition and_then :: "error + 'a \<Rightarrow> ('a \<Rightarrow> error + 'b) \<Rightarrow> error + 'b" where
  "and_then m f = (case m of Inl e \<Rightarrow> Inl e | Inr v \<Rightarrow> f v)"

fun sequence :: "(error + 'a) list \<Rightarrow> error + 'a list" where
  "sequence [] = Inr []"
| "sequence (x # xs) =
     (case x of Inl e \<Rightarrow> Inl e
      | Inr v \<Rightarrow> (case sequence xs of Inl e \<Rightarrow> Inl e | Inr vs \<Rightarrow> Inr (v # vs)))"

text \<open>
  \<^verbatim>\<open>x.view(-1, a, c)\<close> reads the elements of \<open>x\<close> in row-major order and cuts
  them into blocks; it raises when the element count is not a multiple of \<open>a * c\<close>.
\<close>

function chunks :: "nat \<Rightarrow> 'a list \<Rightarrow> 'a list list" where
  "chunks n xs = (if n = 0 \<or> xs = [] then [] else take n xs # chunks n (drop n xs))"
  by pat_completeness auto
termination
  by (relation "measure (\<lambda>(n, xs). length xs)") auto

declare chunks.simps [simp del]

definition view2 :: "nat \<Rightarrow> real list \<Rightarrow> error + tensor2" where
  "view2 c flat =
     (if c = 0 \<or> length flat mod c \<noteq> 0 then Inl ShapeError else Inr (chunks c flat))"

definition view3 :: "nat \<Rightarrow> nat \<Rightarrow> real list \<Rightarrow> error + tensor3" where
  "view3 a c flat =
     (if a * c = 0 \<or> length flat mod (a * c) \<noteq> 0 then Inl ShapeError
      else Inr (map (chunks c) (chunks (a * c) flat)))"

text \<open>\<^verbatim>\<open>x.view(1, -1, c)\<close>: one block holding every row.\<close>

definition view3_lead1 :: "nat \<Rightarrow> real list \<Rightarrow> error + tensor3" where
  "view3_lead1 c flat =
     (if c = 0 \<or> length flat mod c \<noteq> 0 then Inl ShapeError else Inr [chunks c flat])"

text \<open>
  Broadcasting of two tensors of equal rank along one dimension: equal sizes are paired,
  a size of one is repeated, anything else raises.
\<close>

definition bcast :: "('a \<Rightarrow> 'b \<Rightarrow> error + 'c) \<Rightarrow> 'a list \<Rightarrow> 'b list \<Rightarrow> error + 'c list" where
  "bcast f xs ys =
     (if length xs = length ys then sequence (map2 f xs ys)
      else if length xs = 1 then sequence (map (f (hd xs)) ys)
      else if length ys = 1 then sequence (map (\<lambda>x. f x (hd ys)) xs)
      else Inl ShapeError)"

definition ncols :: "tensor2 \<Rightarrow> nat" where
  "ncols B = (case B of [] \<Rightarrow> 0 | row # _ \<Rightarrow> length row)"

text \<open>The matrix product \<open>(n, k) @ (k, m)\<close> and its batched form \<^verbatim>\<open>A @ B\<close>.\<close>

definition matmul2 :: "tensor2 \<Rightarrow> tensor2 \<Rightarrow> error + tensor2" where
  "matmul2 A B =
     (if list_all (\<lambda>row. length row = length B) A \<and> list_all (\<lambda>row. length row = ncols B) B
      then Inr (map (\<lambda>row. map (\<lambda>j. \<Sum>k<length B. row ! k * B ! k ! j) [0..<ncols B]) A)
      else Inl ShapeError)"

definition matmul3 :: "tensor3 \<Rightarrow> tensor3 \<Rightarrow> error + tensor3" where
  "matmul3 = bcast matmul2"

text \<open>Element-wise \<^verbatim>\<open>+\<close> and \<^verbatim>\<open>-\<close> with broadcasting, rank two and three.\<close>

definition ew2 :: "(real \<Rightarrow> real \<Rightarrow> real) \<Rightarrow> tensor2 \<Rightarrow> tensor2 \<Rightarrow> error + tensor2" where
  "ew2 f = bcast (bcast (\<lambda>x y. Inr (f x y)))"

definition ew3 :: "(real \<Rightarrow> real \<Rightarrow> real) \<Rightarrow> tensor3 \<Rightarrow> tensor3 \<Rightarrow> error + tensor3" where
  "ew3 f = bcast (ew2 f)"

text \<open>\<^verbatim>\<open>torch.norm(v)\<close>: the Euclidean norm of all elements.\<close>

definition l2norm :: "real list \<Rightarrow> real" where
  "l2norm v = sqrt (\<Sum>x\<leftarrow>v. x\<^sup>2)"

text \<open>
  \<^verbatim>\<open>torch.renorm(x, p=2, dim=-1, maxnorm)\<close> on a rank-three tensor.  The sub-tensors
  of \<open>x\<close> along dimension \<open>dim\<close> are the slices \<^verbatim>\<open>x.select(dim, j)\<close>; with
  \<open>dim = -1\<close> slice \<open>j\<close> collects coordinate \<open>j\<close> of every row of every block.
  A slice whose norm exceeds \<open>maxnorm\<close> is multiplied by
  \<open>maxnorm / (norm + 1e-7)\<close>, any other slice is copied.  (In the example of the
  torch documentation, \<^verbatim>\<open>torch.renorm(x, 1, 0, 5)\<close> on a \<open>3 \<times> 3\<close> matrix
  rescales the rows \<^verbatim>\<open>x[i]\<close>: \<open>dim\<close> is the dimension that is kept, the norm
  runs over all the others.)
\<close>

definition renorm_eps :: real where
  "renorm_eps = 1 / 10 ^ 7"

definition renorm_factor :: "real \<Rightarrow> real \<Rightarrow> real" where
  "renorm_factor maxnorm nrm = (if nrm > maxnorm then maxnorm / (nrm + renorm_eps) else 1)"

definition select_last :: "tensor3 \<Rightarrow> nat \<Rightarrow> real list" where
  "select_last x j = map (\<lambda>row. row ! j) (concat x)"

definition renorm :: "tensor3 \<Rightarrow> real \<Rightarrow> tensor3" where
  "renorm x maxnorm =
     map (map (\<lambda>row. map (\<lambda>j. row ! j * renorm_factor maxnorm (l2norm (select_last x j)))
                        [0..<length row])) x"

text \<open>
  \<^verbatim>\<open>functional.normalize(w, out=w)\<close> with its defaults \<open>p = 2\<close>, \<open>dim = 1\<close>,
  \<open>eps = 1e-12\<close>: every row is divided by \<open>max(norm, eps)\<close>.  The tables hold
  float32 numbers.  Rounding is not modelled, the overflow of the squared norm is: when
  the sum of the squares of a row exceeds the largest float32, the norm is
  \<^verbatim>\<open>inf\<close> and every element divided by it is zero.
\<close>

definition normalize_eps :: real where
  "normalize_eps = 1 / 10 ^ 12"

definition float32_max :: real where
  "float32_max = (2 - 1 / 2 ^ 23) * 2 ^ 127"

definition normalize_row :: "vec \<Rightarrow> vec" where
  "normalize_row v =
     (if float32_max < (\<Sum>x\<leftarrow>v. x\<^sup>2) then map (\<lambda>x. 0) v
      else map (\<lambda>x. x / max (l2norm v) normalize_eps) v)"

definition normalize :: "tensor2 \<Rightarrow> tensor2" where
  "normalize w = map normalize_row w"

subsection \<open>\<^verbatim>\<open>nn.Embedding\<close>\<close>

text \<open>
  An embedding table is its weight matrix and the optional \<^verbatim>\<open>max_norm\<close>.  Calling
  the table on a tensor of ids first clips, in place, every addressed row whose norm
  exceeds \<^verbatim>\<open>max_norm\<close> (scale \<open>max_norm / (norm + 1e-7)\<close>) and then gathers the
  addressed rows in the order of the ids.  An id outside the table raises.  Ids are
  naturals: a negative id raises as an id beyond the table does.
\<close>

record Embedding =
  weight :: tensor2
  max_norm :: "real option"

definition clip_row :: "real \<Rightarrow> vec \<Rightarrow> vec" where
  "clip_row mx v =
     (if l2norm v > mx then map (\<lambda>x. x * (mx / (l2norm v + renorm_eps))) v else v)"

definition embedding_renorm :: "tensor2 \<Rightarrow> nat list \<Rightarrow> real \<Rightarrow> tensor2" where
  "embedding_renorm w ids mx =
     map (\<lambda>i. if List.member ids i then clip_row mx (w ! i) else w ! i) [0..<length w]"

definition Embedding_forward :: "Embedding \<Rightarrow> nat list \<Rightarrow> error + (tensor2 \<times> Embedding)" where
  "Embedding_forward E ids =
     (if list_ex (\<lambda>i. length (weight E) \<le> i) ids then Inl IndexError
      else let w' = (case max_norm E of None \<Rightarrow> weight E
                     | Some mx \<Rightarrow> embedding_renorm (weight E) ids mx)
           in Inr (map (\<lambda>i. w' ! i) ids, E\<lparr>weight := w'\<rparr>))"

definition call_table :: "Embedding option \<Rightarrow> nat list \<Rightarrow> error + (tensor2 \<times> Embedding)" where
  "call_table tbl ids =
     (case tbl of None \<Rightarrow> Inl TypeError | Some E \<Rightarrow> Embedding_forward E ids)"

text \<open>
  \<^verbatim>\<open>nn.Embedding(n, d, max_norm)\<close> allocates an \<open>n \<times> d\<close> table and fills it from
  the random generator; the drawn values are the argument \<open>w0\<close>.
\<close>

definition new_Embedding :: "real option \<Rightarrow> tensor2 \<Rightarrow> Embedding" where
  "new_Embedding mx w0 = \<lparr>weight = w0, max_norm = mx\<rparr>"

definition has_shape :: "nat \<Rightarrow> nat \<Rightarrow> tensor2 \<Rightarrow> bool" where
  "has_shape n d w \<longleftrightarrow> length w = n \<and> list_all (\<lambda>row. length row = d) w"

section \<open>The state shared by both models\<close>

text \<open>
  Both classes derive from \<^verbatim>\<open>BaseModule\<close> (\<^verbatim>\<open>poem/models/base.py\<close>, not among
  the two files modelled here).  The fields below are the attributes the two files read
  and write: \<^verbatim>\<open>num_entities\<close>, \<^verbatim>\<open>num_relations\<close>, \<^verbatim>\<open>embedding_dim\<close>
  and \<^verbatim>\<open>entity_embeddings\<close> are set by the base constructor,
  \<^verbatim>\<open>relation_embeddings\<close> by each subclass; \<open>regularize_calls\<close> is the state
  of the regularizer.
\<close>

type_synonym reg_call = "tensor3 \<times> tensor3 \<times> tensor3"

record BaseModule =
  num_entities :: nat
  num_relations :: nat
  embedding_dim :: nat
  entity_embeddings :: "Embedding option"
  relation_embeddings :: "Embedding option"
  regularize_calls :: "reg_call list"

text \<open>
  Modelled from the spec: \<^verbatim>\<open>BaseModule.regularize_if_necessary\<close> is missing.
  Section 6 of the specification gives the regularizer the interface
  \<^verbatim>\<open>accumulate(*tensors) -> None\<close>, called with the operands of a scoring call;
  the model appends every invocation, with its argument tensors, to the trace.
\<close>

definition regularize_if_necessary ::
    "tensor3 \<Rightarrow> tensor3 \<Rightarrow> tensor3 \<Rightarrow> 'a BaseModule_scheme \<Rightarrow> 'a BaseModule_scheme" where
  "regularize_if_necessary h r t self =
     self\<lparr>regularize_calls := regularize_calls self @ [(h, r, t)]\<rparr>"

section \<open>RESCAL\<close>

type_synonym RESCAL = BaseModule

text \<open>
  \<^verbatim>\<open>RESCAL.init_empty_weights_\<close>: a missing table is created without
  \<^verbatim>\<open>max_norm\<close>; \<open>e0\<close> and \<open>r0\<close> are the values the generator draws for it.
\<close>

definition RESCAL_init_empty_weights :: "tensor2 \<Rightarrow> tensor2 \<Rightarrow> RESCAL \<Rightarrow> RESCAL" where
  "RESCAL_init_empty_weights e0 r0 self =
     (let self1 = (if entity_embeddings self = None
                   then self\<lparr>entity_embeddings := Some (new_Embedding None e0)\<rparr> else self)
      in (if relation_embeddings self1 = None
          then self1\<lparr>relation_embeddings := Some (new_Embedding None r0)\<rparr> else self1))"

definition RESCAL_clear_weights :: "RESCAL \<Rightarrow> RESCAL" where
  "RESCAL_clear_weights self = self\<lparr>entity_embeddings := None, relation_embeddings := None\<rparr>"

text \<open>\<^verbatim>\<open>scores[:, :, 0]\<close> and \<^verbatim>\<open>scores[:, 0, :]\<close>; index 0 of an empty dimension raises.\<close>

definition index_last0 :: "tensor3 \<Rightarrow> error + tensor2" where
  "index_last0 x =
     (if list_ex (list_ex (\<lambda>row. row = [])) x then Inl IndexError
      else Inr (map (map (\<lambda>row. row ! 0)) x))"

definition index_mid0 :: "tensor3 \<Rightarrow> error + tensor2" where
  "index_mid0 x =
     (if list_ex (\<lambda>blk. blk = []) x then Inl IndexError else Inr (map (\<lambda>blk. blk ! 0) x))"

text \<open>
  \<^verbatim>\<open>w.transpose(0, 1).view(1, d, n)\<close>.  The transpose of an \<open>n \<times> d\<close> table
  is viewed as it is.  The transpose of a table of any other shape is not contiguous and
  cannot be viewed in another shape, unless the table has a single row or a single
  column: then the transpose holds the elements in the order of the table, and the view
  cuts them into \<open>d\<close> rows of \<open>n\<close>.
\<close>

definition transpose_view :: "nat \<Rightarrow> nat \<Rightarrow> tensor2 \<Rightarrow> error + tensor3" where
  "transpose_view d n w =
     (if has_shape n d w then Inr [map (\<lambda>j. map (\<lambda>i. w ! i ! j) [0..<n]) [0..<d]]
      else if (length w = 1 \<or> list_all (\<lambda>row. length row = 1) w) \<and>
              length (concat w) = d * n \<and> 0 < n
      then Inr [chunks n (concat w)]
      else Inl ShapeError)"

text \<open>
  \<^verbatim>\<open>w.view(1, n, d)\<close>.  A view shares the storage of the table: where a later
  lookup clips rows of the table in place, the view shows the clipped rows, so the
  scoring functions read the view's contents from the table as it is after the lookup.
\<close>

definition view3_whole :: "nat \<Rightarrow> nat \<Rightarrow> real list \<Rightarrow> error + tensor3" where
  "view3_whole n d flat =
     (if length flat = n * d then Inr [if d = 0 then replicate n [] else chunks d flat]
      else Inl ShapeError)"

definition RESCAL_score_hrt ::
    "RESCAL \<Rightarrow> (nat \<times> nat \<times> nat) list \<Rightarrow> error + (tensor2 \<times> RESCAL)" where
  "RESCAL_score_hrt self hrt_batch =
     and_then (call_table (entity_embeddings self) (map fst hrt_batch)) (\<lambda>(h0, E1).
     and_then (view3 1 (embedding_dim self) (concat h0)) (\<lambda>h.
     and_then (call_table (relation_embeddings self) (map (fst \<circ> snd) hrt_batch)) (\<lambda>(r0, R1).
     and_then (view3 (embedding_dim self) (embedding_dim self) (concat r0)) (\<lambda>r.
     and_then (Embedding_forward E1 (map (snd \<circ> snd) hrt_batch)) (\<lambda>(t0, E2).
     and_then (view3 (embedding_dim self) 1 (concat t0)) (\<lambda>t.
     and_then (matmul3 h r) (\<lambda>hr.
     and_then (matmul3 hr t) (\<lambda>scores.
     and_then (index_last0 scores) (\<lambda>out.
       Inr (out, regularize_if_necessary h r t
                   (self\<lparr>entity_embeddings := Some E2, relation_embeddings := Some R1\<rparr>)))))))))))"

definition RESCAL_score_t ::
    "RESCAL \<Rightarrow> (nat \<times> nat) list \<Rightarrow> error + (tensor2 \<times> RESCAL)" where
  "RESCAL_score_t self hr_batch =
     and_then (call_table (entity_embeddings self) (map fst hr_batch)) (\<lambda>(h0, E1).
     and_then (view3 1 (embedding_dim self) (concat h0)) (\<lambda>h.
     and_then (call_table (relation_embeddings self) (map snd hr_batch)) (\<lambda>(r0, R1).
     and_then (view3 (embedding_dim self) (embedding_dim self) (concat r0)) (\<lambda>r.
     and_then (transpose_view (embedding_dim self) (num_entities self) (weight E1)) (\<lambda>t.
     and_then (matmul3 h r) (\<lambda>hr.
     and_then (matmul3 hr t) (\<lambda>scores.
     and_then (index_mid0 scores) (\<lambda>out.
       Inr (out, regularize_if_necessary h r t
                   (self\<lparr>entity_embeddings := Some E1, relation_embeddings := Some R1\<rparr>))))))))))"

definition RESCAL_score_h ::
    "RESCAL \<Rightarrow> (nat \<times> nat) list \<Rightarrow> error + (tensor2 \<times> RESCAL)" where
  "RESCAL_score_h self rt_batch =
     (case entity_embeddings self of None \<Rightarrow> Inl AttributeError | Some E0 \<Rightarrow>
     and_then (view3_whole (num_entities self) (embedding_dim self) (concat (weight E0))) (\<lambda>_.
     and_then (call_table (relation_embeddings self) (map fst rt_batch)) (\<lambda>(r0, R1).
     and_then (view3 (embedding_dim self) (embedding_dim self) (concat r0)) (\<lambda>r.
     and_then (Embedding_forward E0 (map snd rt_batch)) (\<lambda>(t0, E1).
     and_then (view3 (embedding_dim self) 1 (concat t0)) (\<lambda>t.
     and_then (view3_whole (num_entities self) (embedding_dim self) (concat (weight E1))) (\<lambda>h.
     and_then (matmul3 h r) (\<lambda>hr.
     and_then (matmul3 hr t) (\<lambda>scores.
     and_then (index_last0 scores) (\<lambda>out.
       Inr (out, regularize_if_necessary h r t
                   (self\<lparr>entity_embeddings := Some E1, relation_embeddings := Some R1\<rparr>))))))))))))"

subsection \<open>Initialised models, valid batches and the bilinear form\<close>

text \<open>
  A table as \<^verbatim>\<open>RESCAL.init_empty_weights_\<close> leaves it: present, of the declared
  shape, without \<^verbatim>\<open>max_norm\<close>.
\<close>

definition table_ok :: "nat \<Rightarrow> nat \<Rightarrow> Embedding option \<Rightarrow> bool" where
  "table_ok n d tbl =
     (case tbl of None \<Rightarrow> False | Some E \<Rightarrow> has_shape n d (weight E) \<and> max_norm E = None)"

definition RESCAL_ready :: "RESCAL \<Rightarrow> bool" where
  "RESCAL_ready self \<longleftrightarrow>
     0 < embedding_dim self \<and>
     table_ok (num_entities self) (embedding_dim self) (entity_embeddings self) \<and>
     table_ok (num_relations self) (embedding_dim self * embedding_dim self)
       (relation_embeddings self)"

definition valid_hrt :: "'a BaseModule_scheme \<Rightarrow> (nat \<times> nat \<times> nat) list \<Rightarrow> bool" where
  "valid_hrt self batch =
     list_all (\<lambda>(h, r, t). h < num_entities self \<and> r < num_relations self \<and>
                            t < num_entities self) batch"

definition valid_hr :: "'a BaseModule_scheme \<Rightarrow> (nat \<times> nat) list \<Rightarrow> bool" where
  "valid_hr self batch =
     list_all (\<lambda>(h, r). h < num_entities self \<and> r < num_relations self) batch"

definition valid_rt :: "'a BaseModule_scheme \<Rightarrow> (nat \<times> nat) list \<Rightarrow> bool" where
  "valid_rt self batch =
     list_all (\<lambda>(r, t). r < num_relations self \<and> t < num_entities self) batch"

text \<open>
  The weight matrix of a table after it has been called on \<open>ids\<close>: the addressed rows
  clipped when the table has a \<^verbatim>\<open>max_norm\<close>, the matrix as it was otherwise.
\<close>

definition table_after :: "Embedding \<Rightarrow> nat list \<Rightarrow> tensor2" where
  "table_after E ids =
     (case max_norm E of None \<Rightarrow> weight E | Some mx \<Rightarrow> embedding_renorm (weight E) ids mx)"

text \<open>
  A model whose two tables are present and have the declared shapes, with or without
  \<^verbatim>\<open>max_norm\<close>: the constructor accepts tables made by the caller.
\<close>

definition table_shaped :: "nat \<Rightarrow> nat \<Rightarrow> Embedding option \<Rightarrow> bool" where
  "table_shaped n d tbl = (case tbl of None \<Rightarrow> False | Some E \<Rightarrow> has_shape n d (weight E))"

definition RESCAL_initialized :: "RESCAL \<Rightarrow> bool" where
  "RESCAL_initialized self \<longleftrightarrow>
     0 < embedding_dim self \<and>
     table_shaped (num_entities self) (embedding_dim self) (entity_embeddings self) \<and>
     table_shaped (num_relations self) (embedding_dim self * embedding_dim self)
       (relation_embeddings self)"

text \<open>
  The bilinear form \<open>h R t\<close> of the specification, for a relation row \<open>R\<close> that
  stores a \<open>d \<times> d\<close> matrix in row-major order.
\<close>

definition bilinear :: "nat \<Rightarrow> vec \<Rightarrow> vec \<Rightarrow> vec \<Rightarrow> real" where
  "bilinear d h R t = (\<Sum>i<d. \<Sum>j<d. h ! i * R ! (i * d + j) * t ! j)"

text \<open>
  The operand shapes: a batch of vectors as row vectors \<open>(b, 1, d)\<close>, as column vectors
  \<open>(b, d, 1)\<close>, and a batch of flat rows as matrices \<open>(b, d, m)\<close>.
\<close>

definition row_operand :: "tensor2 \<Rightarrow> tensor3" where
  "row_operand rows = map (\<lambda>row. [row]) rows"

definition col_operand :: "tensor2 \<Rightarrow> tensor3" where
  "col_operand rows = map (map (\<lambda>x. [x])) rows"

definition mat_operand :: "nat \<Rightarrow> tensor2 \<Rightarrow> tensor3" where
  "mat_operand m rows = map (chunks m) rows"


definition scale_row :: "real \<Rightarrow> nat \<Rightarrow> Embedding \<Rightarrow> Embedding" where
  "scale_row \<alpha> i E = E\<lparr>weight := (weight E)[i := map (\<lambda>x. \<alpha> * x) (weight E ! i)]\<rparr>"

section \<open>TransR\<close>

record TransR = BaseModule +
  relation_embedding_dim :: nat
  scoring_fct_norm :: int
  relation_projections :: "Embedding option"

text \<open>
  \<^verbatim>\<open>TransR.init_empty_weights_\<close>.  The helper
  \<^verbatim>\<open>embedding_xavier_uniform_\<close> (\<^verbatim>\<open>poem/models/init.py\<close>) fills a table with
  random values; the values the entity and the relation table hold after that call are
  the arguments \<open>e0\<close> and \<open>r0\<close>, and \<open>p0\<close> is the random default fill of the
  projection table.
\<close>

definition TransR_init_empty_weights :: "tensor2 \<Rightarrow> tensor2 \<Rightarrow> tensor2 \<Rightarrow> TransR \<Rightarrow> TransR" where
  "TransR_init_empty_weights e0 r0 p0 self =
     (let self1 = (if entity_embeddings self = None
                   then self\<lparr>entity_embeddings := Some (new_Embedding (Some 1) e0)\<rparr>
                   else self);
          self2 = (if relation_embeddings self1 = None
                   then self1\<lparr>relation_embeddings :=
                                Some (new_Embedding (Some 1) (normalize r0))\<rparr>
                   else self1)
      in (if relation_projections self2 = None
          then self2\<lparr>relation_projections := Some (new_Embedding None p0)\<rparr>
          else self2))"

definition TransR_clear_weights :: "TransR \<Rightarrow> TransR" where
  "TransR_clear_weights self = self\<lparr>entity_embeddings := None, relation_embeddings := None\<rparr>"

text \<open>
  \<^verbatim>\<open>TransR.post_parameter_update\<close>.  The hook of the base class is not among the
  two files; by section 3 of the specification the entity table is written only by the
  optimizer and by this method's own normalisation, so the base hook is a parameter
  that acts on the regularizer state.
\<close>

definition TransR_post_parameter_update ::
    "(reg_call list \<Rightarrow> reg_call list) \<Rightarrow> TransR \<Rightarrow> error + TransR" where
  "TransR_post_parameter_update base_hook self =
     (let self1 = self\<lparr>regularize_calls := base_hook (regularize_calls self)\<rparr>
      in case entity_embeddings self1 of
           None \<Rightarrow> Inl AttributeError
         | Some E \<Rightarrow> Inr (self1\<lparr>entity_embeddings := Some (E\<lparr>weight := normalize (weight E)\<rparr>)\<rparr>))"

definition flatten3 :: "tensor3 \<Rightarrow> real list" where
  "flatten3 x = concat (concat x)"

text \<open>\<^verbatim>\<open>-torch.norm(x, dim=-1) ** 2\<close> of one row: the power binds tighter than the sign.\<close>

definition neg_sq_norm :: "vec \<Rightarrow> real" where
  "neg_sq_norm row = - ((l2norm row)\<^sup>2)"

definition TransR_score_hrt ::
    "TransR \<Rightarrow> (nat \<times> nat \<times> nat) list \<Rightarrow> error + (tensor2 \<times> TransR)" where
  "TransR_score_hrt self hrt_batch =
     and_then (call_table (entity_embeddings self) (map fst hrt_batch)) (\<lambda>(h0, E1).
     and_then (view3 1 (embedding_dim self) (concat h0)) (\<lambda>h.
     and_then (call_table (relation_embeddings self) (map (fst \<circ> snd) hrt_batch)) (\<lambda>(r, R1).
     and_then (Embedding_forward E1 (map (snd \<circ> snd) hrt_batch)) (\<lambda>(t0, E2).
     and_then (view3 1 (embedding_dim self) (concat t0)) (\<lambda>t.
     and_then (call_table (relation_projections self) (map (fst \<circ> snd) hrt_batch)) (\<lambda>(m0, P1).
     and_then (view3 (embedding_dim self) (relation_embedding_dim self) (concat m0)) (\<lambda>m_r.
     and_then (matmul3 h m_r) (\<lambda>hm.
     and_then (view2 (relation_embedding_dim self) (flatten3 (renorm hm 1))) (\<lambda>h_bot.
     and_then (matmul3 t m_r) (\<lambda>tm.
     and_then (view2 (relation_embedding_dim self) (flatten3 (renorm tm 1))) (\<lambda>t_bot.
     and_then (ew2 (+) h_bot r) (\<lambda>s1.
     and_then (ew2 (-) s1 t_bot) (\<lambda>s2.
       Inr (map (\<lambda>row. [neg_sq_norm row]) s2,
            self\<lparr>entity_embeddings := Some E2, relation_embeddings := Some R1,
                 relation_projections := Some P1\<rparr>))))))))))))))"

definition TransR_score_t ::
    "TransR \<Rightarrow> (nat \<times> nat) list \<Rightarrow> error + (tensor2 \<times> TransR)" where
  "TransR_score_t self hr_batch =
     and_then (call_table (entity_embeddings self) (map fst hr_batch)) (\<lambda>(h0, E1).
     and_then (view3 1 (embedding_dim self) (concat h0)) (\<lambda>h.
     and_then (call_table (relation_embeddings self) (map snd hr_batch)) (\<lambda>(r0, R1).
     and_then (view3 1 (relation_embedding_dim self) (concat r0)) (\<lambda>r.
     and_then (view3_lead1 (embedding_dim self) (concat (weight E1))) (\<lambda>t.
     and_then (call_table (relation_projections self) (map snd hr_batch)) (\<lambda>(m0, P1).
     and_then (view3 (embedding_dim self) (relation_embedding_dim self) (concat m0)) (\<lambda>m_r.
     and_then (matmul3 h m_r) (\<lambda>hm.
     and_then (view3 1 (relation_embedding_dim self) (flatten3 (renorm hm 1))) (\<lambda>h_bot.
     and_then (matmul3 t m_r) (\<lambda>tm.
     and_then (view3 (num_entities self) (relation_embedding_dim self)
                 (flatten3 (renorm tm 1))) (\<lambda>t_bot.
     and_then (ew3 (+) h_bot r) (\<lambda>s1.
     and_then (ew3 (-) s1 t_bot) (\<lambda>s2.
       Inr (map (map neg_sq_norm) s2,
            self\<lparr>entity_embeddings := Some E1, relation_embeddings := Some R1,
                 relation_projections := Some P1\<rparr>))))))))))))))"

definition TransR_score_h ::
    "TransR \<Rightarrow> (nat \<times> nat) list \<Rightarrow> error + (tensor2 \<times> TransR)" where
  "TransR_score_h self rt_batch =
     (case entity_embeddings self of None \<Rightarrow> Inl AttributeError | Some E0 \<Rightarrow>
     and_then (view3_lead1 (embedding_dim self) (concat (weight E0))) (\<lambda>_.
     and_then (call_table (relation_embeddings self) (map fst rt_batch)) (\<lambda>(r0, R1).
     and_then (view3 1 (relation_embedding_dim self) (concat r0)) (\<lambda>r.
     and_then (Embedding_forward E0 (map snd rt_batch)) (\<lambda>(t0, E1).
     and_then (view3 1 (embedding_dim self) (concat t0)) (\<lambda>t.
     and_then (call_table (relation_projections self) (map fst rt_batch)) (\<lambda>(m0, P1).
     and_then (view3 (embedding_dim self) (relation_embedding_dim self) (concat m0)) (\<lambda>m_r.
     and_then (view3_lead1 (embedding_dim self) (concat (weight E1))) (\<lambda>h.
     and_then (matmul3 h m_r) (\<lambda>hm.
     and_then (view3 (num_entities self) (relation_embedding_dim self)
                 (flatten3 (renorm hm 1))) (\<lambda>h_bot.
     and_then (matmul3 t m_r) (\<lambda>tm.
     and_then (view3 1 (relation_embedding_dim self) (flatten3 (renorm tm 1))) (\<lambda>t_bot.
     and_then (ew3 (+) h_bot r) (\<lambda>s1.
     and_then (ew3 (-) s1 t_bot) (\<lambda>s2.
       Inr (map (map neg_sq_norm) s2,
            self\<lparr>entity_embeddings := Some E1, relation_embeddings := Some R1,
                 relation_projections := Some P1\<rparr>))))))))))))))))"

subsection \<open>A small RESCAL model\<close>

definition RESCAL_demo :: RESCAL where
  "RESCAL_demo = \<lparr>num_entities = 2, num_relations = 1, embedding_dim = 2,
     entity_embeddings = Some \<lparr>weight = [[1, 2], [3, 4]], max_norm = None\<rparr>,
     relation_embeddings = Some \<lparr>weight = [[1, 2, 3, 4]], max_norm = None\<rparr>,
     regularize_calls = []\<rparr>"

text \<open>
  A RESCAL model whose entity table was made by the caller with \<^verbatim>\<open>max_norm = 1\<close>
  and holds a row of norm five.
\<close>

definition RESCAL_mx :: RESCAL where
  "RESCAL_mx = \<lparr>num_entities = 2, num_relations = 1, embedding_dim = 2,
     entity_embeddings = Some \<lparr>weight = [[3, 4], [0, 1]], max_norm = Some 1\<rparr>,
     relation_embeddings = Some \<lparr>weight = [[1, 2, 3, 4]], max_norm = None\<rparr>,
     regularize_calls = []\<rparr>"

subsection \<open>Small TransR models\<close>

text \<open>
  Both dimensions two, as many entities and relations as the tables have rows, tables as
  \<^verbatim>\<open>init_empty_weights_\<close> creates them (\<^verbatim>\<open>max_norm = 1\<close> on the entity and the
  relation table); the arguments are the three weight matrices.
\<close>

definition TransR_model :: "tensor2 \<Rightarrow> tensor2 \<Rightarrow> tensor2 \<Rightarrow> TransR" where
  "TransR_model e r p = \<lparr>num_entities = length e, num_relations = length r, embedding_dim = 2,
     entity_embeddings = Some \<lparr>weight = e, max_norm = Some 1\<rparr>,
     relation_embeddings = Some \<lparr>weight = r, max_norm = Some 1\<rparr>,
     regularize_calls = [],
     relation_embedding_dim = 2, scoring_fct_norm = 1,
     relation_projections = Some \<lparr>weight = p, max_norm = None\<rparr>\<rparr>"

subsection \<open>The TransR score as the specification words it\<close>

text \<open>
  Section 4.2 of the specification: project each entity vector through the relation's
  \<open>d\<^sub>e \<times> d\<^sub>r\<close> matrix, clip the projected vector to Euclidean norm at most one
  (the renorm rule applied to that vector), and return the negative squared norm of
  \<open>h\<^sub>p + r - t\<^sub>p\<close>.
\<close>

definition spec_project :: "vec \<Rightarrow> tensor2 \<Rightarrow> vec" where
  "spec_project v M = map (\<lambda>j. \<Sum>k<length M. v ! k * M ! k ! j) [0..<ncols M]"

definition spec_TransR_score :: "vec \<Rightarrow> vec \<Rightarrow> vec \<Rightarrow> tensor2 \<Rightarrow> real" where
  "spec_TransR_score h r t M =
     neg_sq_norm (map2 (-) (map2 (+) (clip_row 1 (spec_project h M)) r)
                           (clip_row 1 (spec_project t M)))"

text \<open>A rank-three tensor whose last dimension has size \<open>d\<close>.\<close>

definition rect3 :: "nat \<Rightarrow> tensor3 \<Rightarrow> bool" where
  "rect3 d x \<longleftrightarrow> list_all (list_all (\<lambda>row. length row = d)) x"

section \<open>Auxiliary facts about lists, views and products\<close>

lemma sequence_Inr_nth:
  "(\<And>i. i < length xs \<Longrightarrow> xs ! i = Inr (g i)) \<Longrightarrow> sequence xs = Inr (map g [0..<length xs])"
proof (induction xs arbitrary: g)
  case Nil then show ?case by simp
next
  case (Cons x xs)
  have hd: "x = Inr (g 0)" using Cons.prems[of 0] by simp
  have tl: "sequence xs = Inr (map (\<lambda>i. g (Suc i)) [0..<length xs])"
    by (rule Cons.IH) (use Cons.prems in force)
  show ?case using hd tl by (simp add: upt_conv_Cons map_Suc_upt [symmetric] del: upt_Suc)
qed

lemma bcast_same:
  assumes "length xs = length ys"
    and "\<And>i. i < length xs \<Longrightarrow> f (xs ! i) (ys ! i) = Inr (g i)"
  shows "bcast f xs ys = Inr (map g [0..<length xs])"
proof -
  have "sequence (map2 f xs ys) = Inr (map g [0..<length (map2 f xs ys)])"
    by (rule sequence_Inr_nth) (use assms in simp)
  then show ?thesis using assms(1) by (simp add: bcast_def)
qed

lemma chunks_concat:
  "0 < c \<Longrightarrow> list_all (\<lambda>row. length row = c) rows \<Longrightarrow> chunks c (concat rows) = rows"
proof (induction rows)
  case Nil then show ?case by (simp add: chunks.simps)
next
  case (Cons r rows)
  then show ?case by (subst chunks.simps) auto
qed

lemma chunks_single: "length row = c \<Longrightarrow> 0 < c \<Longrightarrow> chunks c row = [row]"
  by (subst chunks.simps, subst chunks.simps) auto

lemma length_chunks: "length xs = n * c \<Longrightarrow> 0 < c \<Longrightarrow> length (chunks c xs) = n"
proof (induction n arbitrary: xs)
  case 0 then show ?case by (simp add: chunks.simps)
next
  case (Suc n)
  then have "xs \<noteq> []" by auto
  moreover have "length (chunks c (drop c xs)) = n" by (rule Suc.IH) (use Suc.prems in simp_all)
  ultimately show ?case using Suc.prems by (subst chunks.simps) simp
qed

lemma nth_chunks:
  "length xs = n * c \<Longrightarrow> 0 < c \<Longrightarrow> i < n \<Longrightarrow> chunks c xs ! i = take c (drop (i * c) xs)"
proof (induction n arbitrary: xs i)
  case 0 then show ?case by simp
next
  case (Suc n)
  have c: "0 < c" using Suc.prems by simp
  have ne: "xs \<noteq> []" using Suc.prems c by auto
  show ?case
  proof (cases i)
    case 0 then show ?thesis using ne c by (subst chunks.simps) simp
  next
    case (Suc k)
    have "chunks c (drop c xs) ! k = take c (drop (k * c) (drop c xs))"
      by (rule Suc.IH) (use Suc.prems Suc in simp_all)
    then show ?thesis using ne c Suc by (subst chunks.simps) (simp add: add.commute)
  qed
qed

lemma nth_nth_chunks:
  "length xs = n * c \<Longrightarrow> i < n \<Longrightarrow> j < c \<Longrightarrow> chunks c xs ! i ! j = xs ! (i * c + j)"
proof -
  assume a: "length xs = n * c" "i < n" "j < c"
  have "i * c + c \<le> n * c" using a(2) by (metis Suc_leI mult_Suc mult_le_mono1 add.commute)
  then show ?thesis using a by (simp add: nth_chunks)
qed

lemma Embedding_forward_plain:
  "max_norm E = None \<Longrightarrow> list_all (\<lambda>i. i < length (weight E)) ids \<Longrightarrow>
   Embedding_forward E ids = Inr (map (\<lambda>i. weight E ! i) ids, E)"
  by (auto simp: Embedding_forward_def list_ex_iff list_all_iff)

lemma view3_rows:
  assumes "0 < d" "list_all (\<lambda>row. length row = d) rows"
  shows "view3 1 d (concat rows) = Inr (map (\<lambda>row. [row]) rows)"
proof -
  have len: "length (concat rows) = length rows * d"
    using assms(2) by (induction rows) auto
  have "map (chunks d) rows = map (\<lambda>row. [row]) rows"
    using assms by (intro map_cong refl chunks_single) (auto simp: list_all_iff)
  then show ?thesis using assms len by (simp add: view3_def chunks_concat)
qed

lemma view3_mats:
  assumes "0 < a * c" "list_all (\<lambda>row. length row = a * c) rows"
  shows "view3 a c (concat rows) = Inr (map (chunks c) rows)"
proof -
  have len: "length (concat rows) = length rows * (a * c)"
    using assms(2) by (induction rows) auto
  show ?thesis using assms len by (simp add: view3_def chunks_concat)
qed

lemma chunks_one: "chunks (Suc 0) xs = map (\<lambda>x. [x]) xs"
  by (induction xs) (subst chunks.simps, simp)+

lemma list_all_chunks:
  "length xs = n * c \<Longrightarrow> 0 < c \<Longrightarrow> list_all (\<lambda>r. length r = c) (chunks c xs)"
proof (induction n arbitrary: xs)
  case 0 then show ?case by (simp add: chunks.simps)
next
  case (Suc n)
  have "list_all (\<lambda>r. length r = c) (chunks c (drop c xs))"
    by (rule Suc.IH) (use Suc.prems in simp_all)
  then show ?case using Suc.prems by (subst chunks.simps) auto
qed

lemma ncols_nonempty: "B \<noteq> [] \<Longrightarrow> list_all (\<lambda>r. length r = m) B \<Longrightarrow> ncols B = m"
  by (cases B) (auto simp: ncols_def)

lemma matmul2_rows:
  "list_all (\<lambda>row. length row = length B) A \<Longrightarrow> list_all (\<lambda>r. length r = m) B \<Longrightarrow> B \<noteq> [] \<Longrightarrow>
   matmul2 A B = Inr (map (\<lambda>row. map (\<lambda>j. \<Sum>k<length B. row ! k * B ! k ! j) [0..<m]) A)"
  by (simp add: matmul2_def ncols_nonempty)

lemma matmul2_chunks:
  assumes "0 < d" "0 < m" "list_all (\<lambda>row. length row = d) A" "length r = d * m"
  shows "matmul2 A (chunks m r) =
         Inr (map (\<lambda>row. map (\<lambda>j. \<Sum>k<d. row ! k * r ! (k * m + j)) [0..<m]) A)"
proof -
  let ?B = "chunks m r"
  have lenB: "length ?B = d" using assms by (simp add: length_chunks)
  have allB: "list_all (\<lambda>r. length r = m) ?B" using assms by (simp add: list_all_chunks)
  have neB: "?B \<noteq> []" using lenB assms(1) by auto
  have "matmul2 A ?B = Inr (map (\<lambda>row. map (\<lambda>j. \<Sum>k<length ?B. row ! k * ?B ! k ! j) [0..<m]) A)"
    by (rule matmul2_rows) (use assms lenB allB neB in simp_all)
  also have "(map (\<lambda>row. map (\<lambda>j. \<Sum>k<length ?B. row ! k * ?B ! k ! j) [0..<m]) A)
      = (map (\<lambda>row. map (\<lambda>j. \<Sum>k<d. row ! k * r ! (k * m + j)) [0..<m]) A)"
    using assms by (intro map_cong refl sum.cong) (simp_all add: lenB nth_nth_chunks)
  finally show ?thesis .
qed

lemma matmul3_row_mat:
  assumes "0 < d" "0 < m" "length hs = length rs"
    "list_all (\<lambda>row. length row = d) hs" "list_all (\<lambda>row. length row = d * m) rs"
  shows "matmul3 (row_operand hs) (mat_operand m rs) =
         Inr (map (\<lambda>i. [map (\<lambda>j. \<Sum>k<d. hs ! i ! k * rs ! i ! (k * m + j)) [0..<m]]) [0..<length hs])"
proof -
  have "bcast matmul2 (row_operand hs) (mat_operand m rs) =
        Inr (map (\<lambda>i. [map (\<lambda>j. \<Sum>k<d. hs ! i ! k * rs ! i ! (k * m + j)) [0..<m]])
               [0..<length (row_operand hs)])"
  proof (rule bcast_same)
    show "length (row_operand hs) = length (mat_operand m rs)"
      using assms(3) by (simp add: row_operand_def mat_operand_def)
  next
    fix i assume "i < length (row_operand hs)"
    then have i: "i < length hs" "i < length rs" using assms(3) by (simp_all add: row_operand_def)
    have "matmul2 [hs ! i] (chunks m (rs ! i)) =
          Inr (map (\<lambda>row. map (\<lambda>j. \<Sum>k<d. row ! k * rs ! i ! (k * m + j)) [0..<m]) [hs ! i])"
      by (rule matmul2_chunks) (use assms i in \<open>auto simp: list_all_length\<close>)
    then show "matmul2 (row_operand hs ! i) (mat_operand m rs ! i) =
          Inr [map (\<lambda>j. \<Sum>k<d. hs ! i ! k * rs ! i ! (k * m + j)) [0..<m]]"
      using i by (simp add: row_operand_def mat_operand_def)
  qed
  then show ?thesis by (simp add: matmul3_def row_operand_def)
qed

lemma matmul3_row_col:
  assumes "0 < d" "length vs = length ts"
    "list_all (\<lambda>row. length row = d) vs" "list_all (\<lambda>row. length row = d) ts"
  shows "matmul3 (row_operand vs) (col_operand ts) =
         Inr (map (\<lambda>i. [[\<Sum>k<d. vs ! i ! k * ts ! i ! k]]) [0..<length vs])"
proof -
  have "bcast matmul2 (row_operand vs) (col_operand ts) =
        Inr (map (\<lambda>i. [[\<Sum>k<d. vs ! i ! k * ts ! i ! k]]) [0..<length (row_operand vs)])"
  proof (rule bcast_same)
    show "length (row_operand vs) = length (col_operand ts)"
      using assms(2) by (simp add: row_operand_def col_operand_def)
  next
    fix i assume "i < length (row_operand vs)"
    then have i: "i < length vs" "i < length ts" using assms(2) by (simp_all add: row_operand_def)
    have l: "length (vs ! i) = d" "length (ts ! i) = d" using assms i by (auto simp: list_all_length)
    have "matmul2 [vs ! i] (map (\<lambda>x. [x]) (ts ! i)) =
          Inr (map (\<lambda>row. map (\<lambda>j. \<Sum>k<length (map (\<lambda>x. [x]) (ts ! i)). row ! k * map (\<lambda>x. [x]) (ts ! i) ! k ! j) [0..<1]) [vs ! i])"
      by (rule matmul2_rows) (use l assms(1) in \<open>auto simp: list_all_iff\<close>)
    then show "matmul2 (row_operand vs ! i) (col_operand ts ! i) = Inr [[\<Sum>k<d. vs ! i ! k * ts ! i ! k]]"
      using i l by (simp add: row_operand_def col_operand_def)
  qed
  then show ?thesis by (simp add: matmul3_def row_operand_def)
qed

lemma map_upt_nth: "map (\<lambda>i. f (xs ! i)) [0..<length xs] = map f xs"
  by (rule nth_equalityI) simp_all

lemma index_last0_single:
  "index_last0 (map (\<lambda>i. [[g i]]) xs) = Inr (map (\<lambda>i. [g i]) xs)"
  by (simp add: index_last0_def list_ex_iff)

lemma bilinear_swap:
  "(\<Sum>j<d. (\<Sum>k<d. h ! k * R ! (k * d + j)) * t ! j) = bilinear d h R t"
  unfolding bilinear_def sum_distrib_right by (rule sum.swap)


section \<open>Norms of short vectors\<close>

lemma l2norm_Nil: "l2norm [] = 0"
  by (simp add: l2norm_def)

lemma l2norm_single: "l2norm [x] = \<bar>x\<bar>"
  by (simp add: l2norm_def)

lemma l2norm_pair0: "l2norm [x, 0] = \<bar>x\<bar>" "l2norm [0, x] = \<bar>x\<bar>"
  by (simp_all add: l2norm_def)

lemma l2norm_sq: "(l2norm v)\<^sup>2 = (\<Sum>x\<leftarrow>v. x\<^sup>2)"
proof -
  have "0 \<le> (\<Sum>x\<leftarrow>v. x\<^sup>2)" by (induction v) auto
  then show ?thesis by (simp add: l2norm_def)
qed

lemma neg_sq_norm_sum: "neg_sq_norm v = - (\<Sum>x\<leftarrow>v. x\<^sup>2)"
  by (simp add: neg_sq_norm_def l2norm_sq)

lemma l2norm_3_4: "l2norm [3, 4] = 5"
  unfolding l2norm_def by (rule real_sqrt_unique) simp_all

section \<open>Lookups in tables that carry \<^verbatim>\<open>max_norm\<close>\<close>

lemma table_after_None: "max_norm E = None \<Longrightarrow> table_after E ids = weight E"
  by (simp add: table_after_def)

lemma length_clip_row: "length (clip_row mx v) = length v"
  by (simp add: clip_row_def)

lemma has_shape_table_after:
  "has_shape n d (weight E) \<Longrightarrow> has_shape n d (table_after E ids)"
  by (auto simp: has_shape_def table_after_def embedding_renorm_def list_all_length
      length_clip_row split: option.split)

lemma Embedding_forward_general:
  "list_all (\<lambda>i. i < length (weight E)) ids \<Longrightarrow>
   Embedding_forward E ids =
     Inr (map (\<lambda>i. table_after E ids ! i) ids, E\<lparr>weight := table_after E ids\<rparr>)"
  by (auto simp: Embedding_forward_def table_after_def list_ex_iff list_all_iff Let_def
      split: option.split)

lemma RESCAL_initializedD:
  assumes "RESCAL_initialized self" "entity_embeddings self = Some E"
    "relation_embeddings self = Some R"
  shows "0 < embedding_dim self"
    and "has_shape (num_entities self) (embedding_dim self) (weight E)"
    and "has_shape (num_relations self) (embedding_dim self * embedding_dim self) (weight R)"
  using assms by (simp_all add: RESCAL_initialized_def table_shaped_def)

lemma RESCAL_ready_initialized: "RESCAL_ready self \<Longrightarrow> RESCAL_initialized self"
  by (auto simp: RESCAL_ready_def RESCAL_initialized_def table_ok_def table_shaped_def
      split: option.splits)

lemma RESCAL_score_hrt_general:
  assumes init: "RESCAL_initialized self"
    and E: "entity_embeddings self = Some E" and R: "relation_embeddings self = Some R"
    and valid: "valid_hrt self batch"
    and W1: "W1 = table_after E (map fst batch)"
    and W2: "W2 = table_after (E\<lparr>weight := W1\<rparr>) (map (snd \<circ> snd) batch)"
    and V1: "V1 = table_after R (map (fst \<circ> snd) batch)"
  shows "RESCAL_score_hrt self batch =
         Inr (map (\<lambda>(h, r, t). [bilinear (embedding_dim self) (W1 ! h) (V1 ! r) (W2 ! t)]) batch,
              regularize_if_necessary
                (row_operand (map (\<lambda>(h, r, t). W1 ! h) batch))
                (mat_operand (embedding_dim self) (map (\<lambda>(h, r, t). V1 ! r) batch))
                (col_operand (map (\<lambda>(h, r, t). W2 ! t) batch))
                (self\<lparr>entity_embeddings := Some (E\<lparr>weight := W2\<rparr>),
                      relation_embeddings := Some (R\<lparr>weight := V1\<rparr>)\<rparr>))"
proof -
  define d where "d = embedding_dim self"
  define hs where "hs = map (\<lambda>(h, r, t). W1 ! h) batch"
  define rs where "rs = map (\<lambda>(h, r, t). V1 ! r) batch"
  define ts where "ts = map (\<lambda>(h, r, t). W2 ! t) batch"
  note rd = RESCAL_initializedD[OF init E R, folded d_def]
  have d: "0 < d" by (rule rd(1))
  have shW1: "has_shape (num_entities self) d W1"
    unfolding W1 by (rule has_shape_table_after[OF rd(2)])
  have shW2: "has_shape (num_entities self) d W2"
    unfolding W2 by (rule has_shape_table_after) (simp add: shW1)
  have shV1: "has_shape (num_relations self) (d * d) V1"
    unfolding V1 by (rule has_shape_table_after[OF rd(3)])
  have lens: "length (weight E) = num_entities self" "length W1 = num_entities self"
      "length W2 = num_entities self" "length (weight R) = num_relations self"
      "length V1 = num_relations self"
    using rd(2,3) shW1 shW2 shV1 by (simp_all add: has_shape_def)
  have rows: "list_all (\<lambda>row. length row = d) W1" "list_all (\<lambda>row. length row = d) W2"
      "list_all (\<lambda>row. length row = d * d) V1"
    using shW1 shW2 shV1 by (simp_all add: has_shape_def)
  have ids: "list_all (\<lambda>i. i < length (weight E)) (map fst batch)"
      "list_all (\<lambda>i. i < length (weight R)) (map (fst \<circ> snd) batch)"
      "list_all (\<lambda>i. i < length (weight (E\<lparr>weight := W1\<rparr>))) (map (snd \<circ> snd) batch)"
    using valid lens by (auto simp: valid_hrt_def list_all_iff)
  have lk_h: "call_table (entity_embeddings self) (map fst batch) = Inr (hs, E\<lparr>weight := W1\<rparr>)"
    using Embedding_forward_general[OF ids(1)] E
    by (simp add: call_table_def hs_def W1 case_prod_unfold comp_def)
  have lk_r: "call_table (relation_embeddings self) (map (fst \<circ> snd) batch) =
              Inr (rs, R\<lparr>weight := V1\<rparr>)"
    using Embedding_forward_general[OF ids(2)] R
    by (simp add: call_table_def rs_def V1 case_prod_unfold comp_def)
  have lk_t: "Embedding_forward (E\<lparr>weight := W1\<rparr>) (map (snd \<circ> snd) batch) =
              Inr (ts, E\<lparr>weight := W2\<rparr>)"
    using Embedding_forward_general[OF ids(3)]
    by (simp add: ts_def W2 case_prod_unfold comp_def)
  have len: "length hs = length batch" "length rs = length batch" "length ts = length batch"
    by (simp_all add: hs_def rs_def ts_def)
  have sh_h: "list_all (\<lambda>row. length row = d) hs"
    using valid rows(1) lens by (auto simp: hs_def valid_hrt_def list_all_iff)
  have sh_t: "list_all (\<lambda>row. length row = d) ts"
    using valid rows(2) lens by (auto simp: ts_def valid_hrt_def list_all_iff)
  have sh_r: "list_all (\<lambda>row. length row = d * d) rs"
    using valid rows(3) lens by (auto simp: rs_def valid_hrt_def list_all_iff)
  have v_h: "view3 1 d (concat hs) = Inr (row_operand hs)"
    using view3_rows[OF d sh_h] by (simp add: row_operand_def)
  have v_r: "view3 d d (concat rs) = Inr (mat_operand d rs)"
    using view3_mats[of d d rs] d sh_r by (simp add: mat_operand_def)
  have v_t: "view3 d 1 (concat ts) = Inr (col_operand ts)"
    using view3_mats[of d 1 ts] d sh_t by (simp add: col_operand_def chunks_one)
  define vs where
    "vs = map (\<lambda>i. map (\<lambda>j. \<Sum>k<d. hs ! i ! k * rs ! i ! (k * d + j)) [0..<d]) [0..<length hs]"
  have mm1: "matmul3 (row_operand hs) (mat_operand d rs) = Inr (row_operand vs)"
    using matmul3_row_mat[OF d d _ sh_h sh_r] len by (simp add: vs_def row_operand_def)
  have sh_v: "list_all (\<lambda>row. length row = d) vs" by (simp add: vs_def list_all_iff)
  have lv: "length vs = length batch" by (simp add: vs_def len)
  have mm2: "matmul3 (row_operand vs) (col_operand ts) =
             Inr (map (\<lambda>i. [[bilinear d (hs ! i) (rs ! i) (ts ! i)]]) [0..<length batch])"
  proof -
    have "matmul3 (row_operand vs) (col_operand ts) =
          Inr (map (\<lambda>i. [[\<Sum>k<d. vs ! i ! k * ts ! i ! k]]) [0..<length vs])"
      by (rule matmul3_row_col[OF d _ sh_v sh_t]) (simp add: lv len)
    also have "map (\<lambda>i. [[\<Sum>k<d. vs ! i ! k * ts ! i ! k]]) [0..<length vs] =
               map (\<lambda>i. [[bilinear d (hs ! i) (rs ! i) (ts ! i)]]) [0..<length batch]"
      unfolding lv
    proof (intro map_cong refl)
      fix i assume "i \<in> set [0..<length batch]"
      then have i: "i < length hs" by (simp add: len)
      have "(\<Sum>k<d. vs ! i ! k * ts ! i ! k) =
            (\<Sum>j<d. (\<Sum>k<d. hs ! i ! k * rs ! i ! (k * d + j)) * ts ! i ! j)"
        using i by (intro sum.cong refl) (simp add: vs_def)
      then show "[[\<Sum>k<d. vs ! i ! k * ts ! i ! k]] = [[bilinear d (hs ! i) (rs ! i) (ts ! i)]]"
        by (simp add: bilinear_swap)
    qed
    finally show ?thesis .
  qed
  have out: "map (\<lambda>i. [bilinear d (hs ! i) (rs ! i) (ts ! i)]) [0..<length batch] =
             map (\<lambda>(h, r, t). [bilinear d (W1 ! h) (V1 ! r) (W2 ! t)]) batch"
    by (rule nth_equalityI) (simp_all add: hs_def rs_def ts_def case_prod_unfold)
  show ?thesis
    unfolding RESCAL_score_hrt_def d_def[symmetric] hs_def[symmetric] rs_def[symmetric]
      ts_def[symmetric]
    by (simp only: lk_h and_then_def sum.case prod.case v_h lk_r v_r lk_t v_t mm1 mm2
        index_last0_single out)
qed

lemma RESCAL_score_hrt_closed:
  assumes ready: "RESCAL_ready self"
    and E: "entity_embeddings self = Some E" and R: "relation_embeddings self = Some R"
    and valid: "valid_hrt self batch"
  shows "RESCAL_score_hrt self batch =
         Inr (map (\<lambda>(h, r, t). [bilinear (embedding_dim self) (weight E ! h) (weight R ! r) (weight E ! t)]) batch,
              regularize_if_necessary
                (row_operand (map (\<lambda>(h, r, t). weight E ! h) batch))
                (mat_operand (embedding_dim self) (map (\<lambda>(h, r, t). weight R ! r) batch))
                (col_operand (map (\<lambda>(h, r, t). weight E ! t) batch)) self)"
proof -
  have mn: "max_norm E = None" "max_norm R = None"
    using ready E R by (simp_all add: RESCAL_ready_def table_ok_def)
  have st: "self\<lparr>entity_embeddings := Some E, relation_embeddings := Some R\<rparr> = self"
    using E R by simp
  show ?thesis
    using RESCAL_score_hrt_general[OF RESCAL_ready_initialized[OF ready] E R valid refl refl refl]
    by (simp add: table_after_None mn st)
qed

section \<open>RESCAL: initialisation yields an initialised model\<close>

lemma RESCAL_init_ready:
  assumes "0 < embedding_dim self"
    and "has_shape (num_entities self) (embedding_dim self) e0"
    and "has_shape (num_relations self) (embedding_dim self * embedding_dim self) r0"
  shows "RESCAL_ready (RESCAL_init_empty_weights e0 r0 (RESCAL_clear_weights self))"
  using assms
  by (simp add: RESCAL_ready_def RESCAL_init_empty_weights_def RESCAL_clear_weights_def
      table_ok_def new_Embedding_def)

section \<open>RESCAL: the score is the bilinear form\<close>





lemma RESCAL_demo_ready: "RESCAL_ready RESCAL_demo"
  by (simp add: RESCAL_ready_def RESCAL_demo_def table_ok_def has_shape_def)

lemma bilinear_2:
  "bilinear 2 h R t = h ! 0 * R ! 0 * t ! 0 + h ! 0 * R ! 1 * t ! 1
                    + h ! 1 * R ! 2 * t ! 0 + h ! 1 * R ! 3 * t ! 1"
  by (simp add: bilinear_def eval_nat_numeral)


section \<open>Broadcast products against the whole entity table\<close>

lemma bcast_right1:
  assumes "length ys = 1"
    and "\<And>i. i < length xs \<Longrightarrow> f (xs ! i) (hd ys) = Inr (g i)"
  shows "bcast f xs ys = Inr (map g [0..<length xs])"
proof (cases "length xs = 1")
  case True
  have "hd ys = ys ! 0" using assms(1) by (cases ys) auto
  then show ?thesis using True assms by (intro bcast_same) auto
next
  case False
  have "sequence (map (\<lambda>x. f x (hd ys)) xs) = Inr (map g [0..<length (map (\<lambda>x. f x (hd ys)) xs)])"
    by (rule sequence_Inr_nth) (use assms in simp)
  then show ?thesis using False assms(1) by (simp add: bcast_def)
qed

lemma bcast_left1:
  assumes "length xs = 1"
    and "\<And>i. i < length ys \<Longrightarrow> f (hd xs) (ys ! i) = Inr (g i)"
  shows "bcast f xs ys = Inr (map g [0..<length ys])"
proof (cases "length ys = 1")
  case True
  have "hd xs = xs ! 0" using assms(1) by (cases xs) auto
  then have "bcast f xs ys = Inr (map g [0..<length xs])"
    using True assms by (intro bcast_same) auto
  then show ?thesis using True assms(1) by simp
next
  case False
  have "sequence (map (f (hd xs)) ys) = Inr (map g [0..<length (map (f (hd xs)) ys)])"
    by (rule sequence_Inr_nth) (use assms in simp)
  then show ?thesis using False assms(1) by (simp add: bcast_def)
qed

lemma transpose_view_ok:
  "has_shape n d w \<Longrightarrow>
   transpose_view d n w = Inr [map (\<lambda>j. map (\<lambda>i. w ! i ! j) [0..<n]) [0..<d]]"
  by (simp add: transpose_view_def)

lemma view3_whole_ok:
  assumes "0 < d" "has_shape n d w"
  shows "view3_whole n d (concat w) = Inr [w]"
proof -
  have a: "list_all (\<lambda>row. length row = d) w" "length w = n"
    using assms(2) by (simp_all add: has_shape_def)
  have "length (concat w) = length w * d" using a(1) by (induction w) auto
  then show ?thesis using assms(1) a by (simp add: view3_whole_def chunks_concat)
qed

lemma index_mid0_single:
  "index_mid0 (map (\<lambda>i. [g i]) xs) = Inr (map g xs)"
  by (auto simp: index_mid0_def list_ex_iff)

lemma index_last0_cols:
  "index_last0 (map (\<lambda>i. map (\<lambda>e. [g i e]) (es i)) xs) = Inr (map (\<lambda>i. map (g i) (es i)) xs)"
  by (auto simp: index_last0_def list_ex_iff comp_def)

lemma matmul3_row_all:
  assumes "0 < d" "list_all (\<lambda>row. length row = d) vs" "has_shape n d w"
  shows "matmul3 (row_operand vs) [map (\<lambda>j. map (\<lambda>i. w ! i ! j) [0..<n]) [0..<d]] =
         Inr (map (\<lambda>i. [map (\<lambda>e. \<Sum>k<d. vs ! i ! k * w ! e ! k) [0..<n]]) [0..<length vs])"
proof -
  let ?T = "map (\<lambda>j. map (\<lambda>i. w ! i ! j) [0..<n]) [0..<d]"
  have "bcast matmul2 (row_operand vs) [?T] =
        Inr (map (\<lambda>i. [map (\<lambda>e. \<Sum>k<d. vs ! i ! k * w ! e ! k) [0..<n]])
               [0..<length (row_operand vs)])"
  proof (rule bcast_right1)
    show "length [?T] = 1" by simp
  next
    fix i assume "i < length (row_operand vs)"
    then have i: "i < length vs" by (simp add: row_operand_def)
    have l: "length (vs ! i) = d" using assms(2) i by (simp add: list_all_length)
    have "matmul2 [vs ! i] ?T =
          Inr (map (\<lambda>row. map (\<lambda>j. \<Sum>k<length ?T. row ! k * ?T ! k ! j) [0..<n]) [vs ! i])"
      by (rule matmul2_rows) (use l assms(1) in \<open>auto simp: list_all_iff\<close>)
    also have "map (\<lambda>row. map (\<lambda>j. \<Sum>k<length ?T. row ! k * ?T ! k ! j) [0..<n]) [vs ! i]
             = [map (\<lambda>e. \<Sum>k<d. vs ! i ! k * w ! e ! k) [0..<n]]"
      by simp
    finally show "matmul2 (row_operand vs ! i) (hd [?T]) =
                  Inr [map (\<lambda>e. \<Sum>k<d. vs ! i ! k * w ! e ! k) [0..<n]]"
      using i by (simp add: row_operand_def)
  qed
  then show ?thesis by (simp add: matmul3_def row_operand_def)
qed

lemma matmul3_all_mat:
  assumes "0 < d" "0 < m" "has_shape n d w" "list_all (\<lambda>row. length row = d * m) rs"
  shows "matmul3 [w] (mat_operand m rs) =
         Inr (map (\<lambda>i. map (\<lambda>row. map (\<lambda>j. \<Sum>k<d. row ! k * rs ! i ! (k * m + j)) [0..<m]) w)
                [0..<length rs])"
proof -
  have "bcast matmul2 [w] (mat_operand m rs) =
        Inr (map (\<lambda>i. map (\<lambda>row. map (\<lambda>j. \<Sum>k<d. row ! k * rs ! i ! (k * m + j)) [0..<m]) w)
               [0..<length (mat_operand m rs)])"
  proof (rule bcast_left1)
    show "length [w] = 1" by simp
  next
    fix i assume "i < length (mat_operand m rs)"
    then have i: "i < length rs" by (simp add: mat_operand_def)
    have "matmul2 w (chunks m (rs ! i)) =
          Inr (map (\<lambda>row. map (\<lambda>j. \<Sum>k<d. row ! k * rs ! i ! (k * m + j)) [0..<m]) w)"
      by (rule matmul2_chunks) (use assms i in \<open>auto simp: list_all_length has_shape_def\<close>)
    then show "matmul2 (hd [w]) (mat_operand m rs ! i) =
          Inr (map (\<lambda>row. map (\<lambda>j. \<Sum>k<d. row ! k * rs ! i ! (k * m + j)) [0..<m]) w)"
      using i by (simp add: mat_operand_def)
  qed
  then show ?thesis by (simp add: matmul3_def mat_operand_def)
qed

lemma matmul3_mat_col:
  assumes "0 < d" "length As = length ts"
    "list_all (list_all (\<lambda>row. length row = d)) As" "list_all (\<lambda>row. length row = d) ts"
  shows "matmul3 As (col_operand ts) =
         Inr (map (\<lambda>i. map (\<lambda>row. [\<Sum>k<d. row ! k * ts ! i ! k]) (As ! i)) [0..<length As])"
proof -
  have "bcast matmul2 As (col_operand ts) =
        Inr (map (\<lambda>i. map (\<lambda>row. [\<Sum>k<d. row ! k * ts ! i ! k]) (As ! i)) [0..<length As])"
  proof (rule bcast_same)
    show "length As = length (col_operand ts)" using assms(2) by (simp add: col_operand_def)
  next
    fix i assume i: "i < length As"
    then have it: "i < length ts" using assms(2) by simp
    have l: "length (ts ! i) = d" "list_all (\<lambda>row. length row = d) (As ! i)"
      using assms i it by (auto simp: list_all_length)
    let ?B = "map (\<lambda>x. [x]) (ts ! i)"
    have "matmul2 (As ! i) ?B =
          Inr (map (\<lambda>row. map (\<lambda>j. \<Sum>k<length ?B. row ! k * ?B ! k ! j) [0..<1]) (As ! i))"
      by (rule matmul2_rows) (use l assms(1) in \<open>auto simp: list_all_iff\<close>)
    then show "matmul2 (As ! i) (col_operand ts ! i) =
          Inr (map (\<lambda>row. [\<Sum>k<d. row ! k * ts ! i ! k]) (As ! i))"
      using it l by (simp add: col_operand_def)
  qed
  then show ?thesis by (simp add: matmul3_def)
qed

section \<open>RESCAL: closed forms of the three scoring modes\<close>

lemma RESCAL_readyD:
  assumes "RESCAL_ready self" "entity_embeddings self = Some E" "relation_embeddings self = Some R"
  shows "0 < embedding_dim self"
    and "has_shape (num_entities self) (embedding_dim self) (weight E)"
    and "max_norm E = None"
    and "length (weight R) = num_relations self"
    and "list_all (\<lambda>row. length row = embedding_dim self * embedding_dim self) (weight R)"
    and "max_norm R = None"
  using assms by (simp_all add: RESCAL_ready_def table_ok_def has_shape_def)

lemma RESCAL_score_t_general:
  assumes init: "RESCAL_initialized self"
    and E: "entity_embeddings self = Some E" and R: "relation_embeddings self = Some R"
    and valid: "valid_hr self batch"
    and W1: "W1 = table_after E (map fst batch)"
    and V1: "V1 = table_after R (map snd batch)"
  shows "RESCAL_score_t self batch =
         Inr (map (\<lambda>(h, r). map (\<lambda>e. bilinear (embedding_dim self) (W1 ! h) (V1 ! r) (W1 ! e))
                              [0..<num_entities self]) batch,
              regularize_if_necessary
                (row_operand (map (\<lambda>(h, r). W1 ! h) batch))
                (mat_operand (embedding_dim self) (map (\<lambda>(h, r). V1 ! r) batch))
                [map (\<lambda>j. map (\<lambda>i. W1 ! i ! j) [0..<num_entities self])
                   [0..<embedding_dim self]]
                (self\<lparr>entity_embeddings := Some (E\<lparr>weight := W1\<rparr>),
                      relation_embeddings := Some (R\<lparr>weight := V1\<rparr>)\<rparr>))"
proof -
  define d where "d = embedding_dim self"
  define n where "n = num_entities self"
  define hs where "hs = map (\<lambda>(h, r). W1 ! h) batch"
  define rs where "rs = map (\<lambda>(h, r). V1 ! r) batch"
  note rd = RESCAL_initializedD[OF init E R, folded d_def n_def]
  have d: "0 < d" by (rule rd(1))
  have shW1: "has_shape n d W1" unfolding W1 by (rule has_shape_table_after[OF rd(2)])
  have shV1: "has_shape (num_relations self) (d * d) V1"
    unfolding V1 by (rule has_shape_table_after[OF rd(3)])
  have lens: "length (weight E) = n" "length W1 = n" "length (weight R) = num_relations self"
      "length V1 = num_relations self"
    using rd(2,3) shW1 shV1 by (simp_all add: has_shape_def)
  have rows: "list_all (\<lambda>row. length row = d) W1" "list_all (\<lambda>row. length row = d * d) V1"
    using shW1 shV1 by (simp_all add: has_shape_def)
  have ids: "list_all (\<lambda>i. i < length (weight E)) (map fst batch)"
      "list_all (\<lambda>i. i < length (weight R)) (map snd batch)"
    using valid lens by (auto simp: valid_hr_def list_all_iff n_def)
  have lk_h: "call_table (entity_embeddings self) (map fst batch) = Inr (hs, E\<lparr>weight := W1\<rparr>)"
    using Embedding_forward_general[OF ids(1)] E
    by (simp add: call_table_def hs_def W1 case_prod_unfold comp_def)
  have lk_r: "call_table (relation_embeddings self) (map snd batch) = Inr (rs, R\<lparr>weight := V1\<rparr>)"
    using Embedding_forward_general[OF ids(2)] R
    by (simp add: call_table_def rs_def V1 case_prod_unfold comp_def)
  have len: "length hs = length batch" "length rs = length batch"
    by (simp_all add: hs_def rs_def)
  have sh_h: "list_all (\<lambda>row. length row = d) hs"
    using valid rows(1) lens by (auto simp: hs_def valid_hr_def list_all_iff n_def)
  have sh_r: "list_all (\<lambda>row. length row = d * d) rs"
    using valid rows(2) lens by (auto simp: rs_def valid_hr_def list_all_iff)
  have v_h: "view3 1 d (concat hs) = Inr (row_operand hs)"
    using view3_rows[OF d sh_h] by (simp add: row_operand_def)
  have v_r: "view3 d d (concat rs) = Inr (mat_operand d rs)"
    using view3_mats[of d d rs] d sh_r by (simp add: mat_operand_def)
  have v_t: "transpose_view d n (weight (E\<lparr>weight := W1\<rparr>)) =
             Inr [map (\<lambda>j. map (\<lambda>i. W1 ! i ! j) [0..<n]) [0..<d]]"
    using transpose_view_ok[OF shW1] by simp
  define vs where
    "vs = map (\<lambda>i. map (\<lambda>j. \<Sum>k<d. hs ! i ! k * rs ! i ! (k * d + j)) [0..<d]) [0..<length hs]"
  have mm1: "matmul3 (row_operand hs) (mat_operand d rs) = Inr (row_operand vs)"
    using matmul3_row_mat[OF d d _ sh_h sh_r] len by (simp add: vs_def row_operand_def)
  have sh_v: "list_all (\<lambda>row. length row = d) vs" by (simp add: vs_def list_all_iff)
  have lv: "length vs = length batch" by (simp add: vs_def len)
  have mm2: "matmul3 (row_operand vs) [map (\<lambda>j. map (\<lambda>i. W1 ! i ! j) [0..<n]) [0..<d]] =
             Inr (map (\<lambda>i. [map (\<lambda>e. bilinear d (hs ! i) (rs ! i) (W1 ! e)) [0..<n]])
                    [0..<length batch])"
  proof -
    have "map (\<lambda>i. [map (\<lambda>e. \<Sum>k<d. vs ! i ! k * W1 ! e ! k) [0..<n]]) [0..<length vs] =
          map (\<lambda>i. [map (\<lambda>e. bilinear d (hs ! i) (rs ! i) (W1 ! e)) [0..<n]])
            [0..<length batch]"
      unfolding lv
    proof (intro map_cong refl)
      fix i assume "i \<in> set [0..<length batch]"
      then have i: "i < length hs" by (simp add: len)
      have "(\<Sum>k<d. vs ! i ! k * W1 ! e ! k) = bilinear d (hs ! i) (rs ! i) (W1 ! e)" for e
      proof -
        have "(\<Sum>k<d. vs ! i ! k * W1 ! e ! k) =
              (\<Sum>j<d. (\<Sum>k<d. hs ! i ! k * rs ! i ! (k * d + j)) * W1 ! e ! j)"
          using i by (intro sum.cong refl) (simp add: vs_def)
        then show ?thesis by (simp add: bilinear_swap)
      qed
      then show "[map (\<lambda>e. \<Sum>k<d. vs ! i ! k * W1 ! e ! k) [0..<n]] =
                 [map (\<lambda>e. bilinear d (hs ! i) (rs ! i) (W1 ! e)) [0..<n]]"
        by simp
    qed
    then show ?thesis using matmul3_row_all[OF d sh_v shW1] by simp
  qed
  have out: "map (\<lambda>i. map (\<lambda>e. bilinear d (hs ! i) (rs ! i) (W1 ! e)) [0..<n])
               [0..<length batch] =
             map (\<lambda>(h, r). map (\<lambda>e. bilinear d (W1 ! h) (V1 ! r) (W1 ! e)) [0..<n]) batch"
    by (rule nth_equalityI) (simp_all add: hs_def rs_def case_prod_unfold)
  show ?thesis
    unfolding RESCAL_score_t_def d_def[symmetric] n_def[symmetric] hs_def[symmetric]
      rs_def[symmetric]
    by (simp only: lk_h and_then_def sum.case prod.case v_h lk_r v_r v_t mm1 mm2
        index_mid0_single out)
qed

lemma RESCAL_score_h_general:
  assumes init: "RESCAL_initialized self"
    and E: "entity_embeddings self = Some E" and R: "relation_embeddings self = Some R"
    and valid: "valid_rt self batch"
    and W1: "W1 = table_after E (map snd batch)"
    and V1: "V1 = table_after R (map fst batch)"
  shows "RESCAL_score_h self batch =
         Inr (map (\<lambda>(r, t). map (\<lambda>e. bilinear (embedding_dim self) (W1 ! e) (V1 ! r) (W1 ! t))
                              [0..<num_entities self]) batch,
              regularize_if_necessary
                [W1]
                (mat_operand (embedding_dim self) (map (\<lambda>(r, t). V1 ! r) batch))
                (col_operand (map (\<lambda>(r, t). W1 ! t) batch))
                (self\<lparr>entity_embeddings := Some (E\<lparr>weight := W1\<rparr>),
                      relation_embeddings := Some (R\<lparr>weight := V1\<rparr>)\<rparr>))"
proof -
  define d where "d = embedding_dim self"
  define n where "n = num_entities self"
  define rs where "rs = map (\<lambda>(r, t). V1 ! r) batch"
  define ts where "ts = map (\<lambda>(r, t). W1 ! t) batch"
  note rd = RESCAL_initializedD[OF init E R, folded d_def n_def]
  have d: "0 < d" by (rule rd(1))
  have shW1: "has_shape n d W1" unfolding W1 by (rule has_shape_table_after[OF rd(2)])
  have shV1: "has_shape (num_relations self) (d * d) V1"
    unfolding V1 by (rule has_shape_table_after[OF rd(3)])
  have lens: "length (weight E) = n" "length W1 = n" "length (weight R) = num_relations self"
      "length V1 = num_relations self"
    using rd(2,3) shW1 shV1 by (simp_all add: has_shape_def)
  have rows: "list_all (\<lambda>row. length row = d) W1" "list_all (\<lambda>row. length row = d * d) V1"
    using shW1 shV1 by (simp_all add: has_shape_def)
  have ids: "list_all (\<lambda>i. i < length (weight R)) (map fst batch)"
      "list_all (\<lambda>i. i < length (weight E)) (map snd batch)"
    using valid lens by (auto simp: valid_rt_def list_all_iff n_def)
  have lk_r: "call_table (relation_embeddings self) (map fst batch) = Inr (rs, R\<lparr>weight := V1\<rparr>)"
    using Embedding_forward_general[OF ids(1)] R
    by (simp add: call_table_def rs_def V1 case_prod_unfold comp_def)
  have lk_t: "Embedding_forward E (map snd batch) = Inr (ts, E\<lparr>weight := W1\<rparr>)"
    using Embedding_forward_general[OF ids(2)]
    by (simp add: ts_def W1 case_prod_unfold comp_def)
  have len: "length rs = length batch" "length ts = length batch"
    by (simp_all add: rs_def ts_def)
  have sh_t: "list_all (\<lambda>row. length row = d) ts"
    using valid rows(1) lens by (auto simp: ts_def valid_rt_def list_all_iff n_def)
  have sh_r: "list_all (\<lambda>row. length row = d * d) rs"
    using valid rows(2) lens by (auto simp: rs_def valid_rt_def list_all_iff)
  have v_h0: "view3_whole n d (concat (weight E)) = Inr [weight E]"
    by (rule view3_whole_ok[OF d rd(2)])
  have v_h: "view3_whole n d (concat (weight (E\<lparr>weight := W1\<rparr>))) = Inr [W1]"
    using view3_whole_ok[OF d shW1] by simp
  have v_r: "view3 d d (concat rs) = Inr (mat_operand d rs)"
    using view3_mats[of d d rs] d sh_r by (simp add: mat_operand_def)
  have v_t: "view3 d 1 (concat ts) = Inr (col_operand ts)"
    using view3_mats[of d 1 ts] d sh_t by (simp add: col_operand_def chunks_one)
  define As where
    "As = map (\<lambda>i. map (\<lambda>row. map (\<lambda>j. \<Sum>k<d. row ! k * rs ! i ! (k * d + j)) [0..<d]) W1)
            [0..<length rs]"
  have mm1: "matmul3 [W1] (mat_operand d rs) = Inr As"
    using matmul3_all_mat[OF d d shW1 sh_r] by (simp add: As_def)
  have sh_A: "list_all (list_all (\<lambda>row. length row = d)) As" by (simp add: As_def list_all_iff)
  have lA: "length As = length batch" by (simp add: As_def len)
  have mm2: "matmul3 As (col_operand ts) =
             Inr (map (\<lambda>i. map (\<lambda>e. [bilinear d (W1 ! e) (rs ! i) (ts ! i)]) [0..<n])
                    [0..<length batch])"
  proof -
    have "map (\<lambda>i. map (\<lambda>row. [\<Sum>k<d. row ! k * ts ! i ! k]) (As ! i)) [0..<length As] =
          map (\<lambda>i. map (\<lambda>e. [bilinear d (W1 ! e) (rs ! i) (ts ! i)]) [0..<n])
            [0..<length batch]"
      unfolding lA
    proof (intro map_cong refl)
      fix i assume "i \<in> set [0..<length batch]"
      then have i: "i < length rs" by (simp add: len)
      have "(\<Sum>k<d. (As ! i ! e) ! k * ts ! i ! k) = bilinear d (W1 ! e) (rs ! i) (ts ! i)"
        if "e < n" for e
      proof -
        have "(\<Sum>k<d. (As ! i ! e) ! k * ts ! i ! k) =
              (\<Sum>j<d. (\<Sum>k<d. W1 ! e ! k * rs ! i ! (k * d + j)) * ts ! i ! j)"
          using i that lens(2) by (intro sum.cong refl) (simp add: As_def)
        then show ?thesis by (simp add: bilinear_swap)
      qed
      moreover have "length (As ! i) = n" using i lens(2) by (simp add: As_def)
      ultimately show "map (\<lambda>row. [\<Sum>k<d. row ! k * ts ! i ! k]) (As ! i) =
                 map (\<lambda>e. [bilinear d (W1 ! e) (rs ! i) (ts ! i)]) [0..<n]"
        by (intro nth_equalityI) simp_all
    qed
    then show ?thesis using matmul3_mat_col[OF d _ sh_A sh_t] lA len by simp
  qed
  have out: "map (\<lambda>i. map (\<lambda>e. bilinear d (W1 ! e) (rs ! i) (ts ! i)) [0..<n])
               [0..<length batch] =
             map (\<lambda>(r, t). map (\<lambda>e. bilinear d (W1 ! e) (V1 ! r) (W1 ! t)) [0..<n]) batch"
    by (rule nth_equalityI) (simp_all add: ts_def rs_def case_prod_unfold)
  show ?thesis
    unfolding RESCAL_score_h_def d_def[symmetric] n_def[symmetric] ts_def[symmetric]
      rs_def[symmetric]
    by (simp only: E option.case lk_t and_then_def sum.case prod.case v_h0 v_h lk_r v_r v_t
        mm1 mm2 index_last0_cols out)
qed

lemma RESCAL_score_t_closed:
  assumes ready: "RESCAL_ready self"
    and E: "entity_embeddings self = Some E" and R: "relation_embeddings self = Some R"
    and valid: "valid_hr self batch"
  shows "RESCAL_score_t self batch =
         Inr (map (\<lambda>(h, r). map (\<lambda>e. bilinear (embedding_dim self) (weight E ! h) (weight R ! r)
                                         (weight E ! e)) [0..<num_entities self]) batch,
              regularize_if_necessary
                (row_operand (map (\<lambda>(h, r). weight E ! h) batch))
                (mat_operand (embedding_dim self) (map (\<lambda>(h, r). weight R ! r) batch))
                [map (\<lambda>j. map (\<lambda>i. weight E ! i ! j) [0..<num_entities self])
                   [0..<embedding_dim self]] self)"
proof -
  have mn: "max_norm E = None" "max_norm R = None"
    using ready E R by (simp_all add: RESCAL_ready_def table_ok_def)
  have st: "self\<lparr>entity_embeddings := Some E, relation_embeddings := Some R\<rparr> = self"
    using E R by simp
  show ?thesis
    using RESCAL_score_t_general[OF RESCAL_ready_initialized[OF ready] E R valid refl refl]
    by (simp add: table_after_None mn st)
qed

lemma RESCAL_score_h_closed:
  assumes ready: "RESCAL_ready self"
    and E: "entity_embeddings self = Some E" and R: "relation_embeddings self = Some R"
    and valid: "valid_rt self batch"
  shows "RESCAL_score_h self batch =
         Inr (map (\<lambda>(r, t). map (\<lambda>e. bilinear (embedding_dim self) (weight E ! e) (weight R ! r)
                                         (weight E ! t)) [0..<num_entities self]) batch,
              regularize_if_necessary
                [weight E]
                (mat_operand (embedding_dim self) (map (\<lambda>(r, t). weight R ! r) batch))
                (col_operand (map (\<lambda>(r, t). weight E ! t) batch)) self)"
proof -
  have mn: "max_norm E = None" "max_norm R = None"
    using ready E R by (simp_all add: RESCAL_ready_def table_ok_def)
  have st: "self\<lparr>entity_embeddings := Some E, relation_embeddings := Some R\<rparr> = self"
    using E R by simp
  show ?thesis
    using RESCAL_score_h_general[OF RESCAL_ready_initialized[OF ready] E R valid refl refl]
    by (simp add: table_after_None mn st)
qed

section \<open>RESCAL: the regularizer call\<close>

text \<open>
  Claim C5, as amended.  On a RESCAL model whose two tables are present in their declared
  shapes, each of \<^verbatim>\<open>score_hrt\<close>, \<^verbatim>\<open>score_t\<close> and \<^verbatim>\<open>score_h\<close>, called on a
  batch of valid ids, appends exactly one call of the regularizer, whose arguments are
  the operands \<open>(h, R, t)\<close> that the call computed.  Besides that, the call changes at
  most the weights of the two tables, as their lookups leave them: a table made with
  \<^verbatim>\<open>max_norm\<close> has the addressed rows clipped in place, and the operands are read
  from the clipped table.  When neither table has a \<^verbatim>\<open>max_norm\<close>, as
  \<^verbatim>\<open>init_empty_weights_\<close> creates them, the regularizer call is the only change.
\<close>

theorem RESCAL_regularize_once:
  assumes "RESCAL_initialized self"
    and "entity_embeddings self = Some E" and "relation_embeddings self = Some R"
    and "valid_hrt self hrt" and "valid_hr self hr" and "valid_rt self rt"
  shows "(\<exists>scores W1 W2 V.
            W1 = table_after E (map fst hrt) \<and>
            W2 = table_after (E\<lparr>weight := W1\<rparr>) (map (snd \<circ> snd) hrt) \<and>
            V = table_after R (map (fst \<circ> snd) hrt) \<and>
            RESCAL_score_hrt self hrt = Inr (scores,
              self\<lparr>entity_embeddings := Some (E\<lparr>weight := W2\<rparr>),
                   relation_embeddings := Some (R\<lparr>weight := V\<rparr>),
                   regularize_calls := regularize_calls self @
                     [(row_operand (map (\<lambda>(h, r, t). W1 ! h) hrt),
                       mat_operand (embedding_dim self) (map (\<lambda>(h, r, t). V ! r) hrt),
                       col_operand (map (\<lambda>(h, r, t). W2 ! t) hrt))]\<rparr>)) \<and>
         (\<exists>scores W V.
            W = table_after E (map fst hr) \<and> V = table_after R (map snd hr) \<and>
            RESCAL_score_t self hr = Inr (scores,
              self\<lparr>entity_embeddings := Some (E\<lparr>weight := W\<rparr>),
                   relation_embeddings := Some (R\<lparr>weight := V\<rparr>),
                   regularize_calls := regularize_calls self @
                     [(row_operand (map (\<lambda>(h, r). W ! h) hr),
                       mat_operand (embedding_dim self) (map (\<lambda>(h, r). V ! r) hr),
                       [map (\<lambda>j. map (\<lambda>i. W ! i ! j) [0..<num_entities self])
                          [0..<embedding_dim self]])]\<rparr>)) \<and>
         (\<exists>scores W V.
            W = table_after E (map snd rt) \<and> V = table_after R (map fst rt) \<and>
            RESCAL_score_h self rt = Inr (scores,
              self\<lparr>entity_embeddings := Some (E\<lparr>weight := W\<rparr>),
                   relation_embeddings := Some (R\<lparr>weight := V\<rparr>),
                   regularize_calls := regularize_calls self @
                     [([W],
                       mat_operand (embedding_dim self) (map (\<lambda>(r, t). V ! r) rt),
                       col_operand (map (\<lambda>(r, t). W ! t) rt))]\<rparr>)) \<and>
         (max_norm E = None \<and> max_norm R = None \<longrightarrow>
            (\<exists>scores c. RESCAL_score_hrt self hrt =
               Inr (scores, self\<lparr>regularize_calls := regularize_calls self @ [c]\<rparr>)) \<and>
            (\<exists>scores c. RESCAL_score_t self hr =
               Inr (scores, self\<lparr>regularize_calls := regularize_calls self @ [c]\<rparr>)) \<and>
            (\<exists>scores c. RESCAL_score_h self rt =
               Inr (scores, self\<lparr>regularize_calls := regularize_calls self @ [c]\<rparr>)))"
proof -
  note g1 = RESCAL_score_hrt_general[OF assms(1,2,3,4) refl refl refl]
  note g2 = RESCAL_score_t_general[OF assms(1,2,3,5) refl refl]
  note g3 = RESCAL_score_h_general[OF assms(1,2,3,6) refl refl]
  have frame: "self\<lparr>entity_embeddings := Some E, relation_embeddings := Some R\<rparr> = self"
    using assms(2,3) by simp
  have a: "\<exists>scores W1 W2 V.
            W1 = table_after E (map fst hrt) \<and>
            W2 = table_after (E\<lparr>weight := W1\<rparr>) (map (snd \<circ> snd) hrt) \<and>
            V = table_after R (map (fst \<circ> snd) hrt) \<and>
            RESCAL_score_hrt self hrt = Inr (scores,
              self\<lparr>entity_embeddings := Some (E\<lparr>weight := W2\<rparr>),
                   relation_embeddings := Some (R\<lparr>weight := V\<rparr>),
                   regularize_calls := regularize_calls self @
                     [(row_operand (map (\<lambda>(h, r, t). W1 ! h) hrt),
                       mat_operand (embedding_dim self) (map (\<lambda>(h, r, t). V ! r) hrt),
                       col_operand (map (\<lambda>(h, r, t). W2 ! t) hrt))]\<rparr>)"
    using g1 by (simp add: regularize_if_necessary_def)
  have b: "\<exists>scores W V.
            W = table_after E (map fst hr) \<and> V = table_after R (map snd hr) \<and>
            RESCAL_score_t self hr = Inr (scores,
              self\<lparr>entity_embeddings := Some (E\<lparr>weight := W\<rparr>),
                   relation_embeddings := Some (R\<lparr>weight := V\<rparr>),
                   regularize_calls := regularize_calls self @
                     [(row_operand (map (\<lambda>(h, r). W ! h) hr),
                       mat_operand (embedding_dim self) (map (\<lambda>(h, r). V ! r) hr),
                       [map (\<lambda>j. map (\<lambda>i. W ! i ! j) [0..<num_entities self])
                          [0..<embedding_dim self]])]\<rparr>)"
    using g2 by (simp add: regularize_if_necessary_def)
  have c: "\<exists>scores W V.
            W = table_after E (map snd rt) \<and> V = table_after R (map fst rt) \<and>
            RESCAL_score_h self rt = Inr (scores,
              self\<lparr>entity_embeddings := Some (E\<lparr>weight := W\<rparr>),
                   relation_embeddings := Some (R\<lparr>weight := V\<rparr>),
                   regularize_calls := regularize_calls self @
                     [([W],
                       mat_operand (embedding_dim self) (map (\<lambda>(r, t). V ! r) rt),
                       col_operand (map (\<lambda>(r, t). W ! t) rt))]\<rparr>)"
    using g3 by (simp add: regularize_if_necessary_def)
  have d: "(\<exists>scores c. RESCAL_score_hrt self hrt =
               Inr (scores, self\<lparr>regularize_calls := regularize_calls self @ [c]\<rparr>)) \<and>
            (\<exists>scores c. RESCAL_score_t self hr =
               Inr (scores, self\<lparr>regularize_calls := regularize_calls self @ [c]\<rparr>)) \<and>
            (\<exists>scores c. RESCAL_score_h self rt =
               Inr (scores, self\<lparr>regularize_calls := regularize_calls self @ [c]\<rparr>))"
    if mn: "max_norm E = None" "max_norm R = None"
  proof -
    have w: "table_after E ids = weight E" "table_after R ids = weight R"
        "table_after (E\<lparr>weight := weight E\<rparr>) ids = weight E" for ids
      by (simp_all add: table_after_None mn)
    have e: "E\<lparr>weight := weight E\<rparr> = E" "R\<lparr>weight := weight R\<rparr> = R" by simp_all
    have h1: "\<exists>scores c. RESCAL_score_hrt self hrt =
               Inr (scores, self\<lparr>regularize_calls := regularize_calls self @ [c]\<rparr>)"
      using g1 by (simp only: w e frame regularize_if_necessary_def) blast
    have h2: "\<exists>scores c. RESCAL_score_t self hr =
               Inr (scores, self\<lparr>regularize_calls := regularize_calls self @ [c]\<rparr>)"
      using g2 by (simp only: w e frame regularize_if_necessary_def) blast
    have h3: "\<exists>scores c. RESCAL_score_h self rt =
               Inr (scores, self\<lparr>regularize_calls := regularize_calls self @ [c]\<rparr>)"
      using g3 by (simp only: w e frame regularize_if_necessary_def) blast
    show ?thesis using h1 h2 h3 by blast
  qed
  show ?thesis using a b c d by blast
qed

lemma RESCAL_demo_initialized: "RESCAL_initialized RESCAL_demo"
  by (rule RESCAL_ready_initialized[OF RESCAL_demo_ready])

lemma RESCAL_mx_initialized: "RESCAL_initialized RESCAL_mx"
  by (simp add: RESCAL_initialized_def RESCAL_mx_def table_shaped_def has_shape_def)

lemma RESCAL_mx_tables:
  "table_after \<lparr>weight = [[3, 4], [0, 1]], max_norm = Some 1\<rparr> [0] =
     [[3 / (5 + renorm_eps), 4 / (5 + renorm_eps)], [0, 1]]"
  "table_after \<lparr>weight = [[3 / (5 + renorm_eps), 4 / (5 + renorm_eps)], [0, 1]],
      max_norm = Some 1\<rparr> [Suc 0] = [[3 / (5 + renorm_eps), 4 / (5 + renorm_eps)], [0, 1]]"
  by (simp_all add: table_after_def embedding_renorm_def clip_row_def l2norm_3_4 l2norm_pair0
      eval_nat_numeral)

theorem RESCAL_regularize_once_witness:
  "RESCAL_initialized RESCAL_demo \<and> valid_hrt RESCAL_demo [(0, 0, 1)] \<and>
   valid_hr RESCAL_demo [(0, 0)] \<and> valid_rt RESCAL_demo [(0, 1)] \<and>
   (\<exists>scores. RESCAL_score_hrt RESCAL_demo [(0, 0, 1)] =
      Inr (scores, RESCAL_demo\<lparr>regularize_calls := [([[[1, 2]]], [[[1, 2], [3, 4]]], [[[3], [4]]])]\<rparr>)) \<and>
   (\<exists>scores. RESCAL_score_t RESCAL_demo [(0, 0)] =
      Inr (scores, RESCAL_demo\<lparr>regularize_calls := [([[[1, 2]]], [[[1, 2], [3, 4]]], [[[1, 3], [2, 4]]])]\<rparr>)) \<and>
   (\<exists>scores. RESCAL_score_h RESCAL_demo [(0, 1)] =
      Inr (scores, RESCAL_demo\<lparr>regularize_calls := [([[[1, 2], [3, 4]]], [[[1, 2], [3, 4]]], [[[3], [4]]])]\<rparr>))"
proof -
  have v: "valid_hrt RESCAL_demo [(0, 0, 1)]" "valid_hr RESCAL_demo [(0, 0)]"
      "valid_rt RESCAL_demo [(0, 1)]"
    by (simp_all add: valid_hrt_def valid_hr_def valid_rt_def RESCAL_demo_def)
  have E: "entity_embeddings RESCAL_demo = Some \<lparr>weight = [[1, 2], [3, 4]], max_norm = None\<rparr>"
    and R: "relation_embeddings RESCAL_demo = Some \<lparr>weight = [[1, 2, 3, 4]], max_norm = None\<rparr>"
    by (simp_all add: RESCAL_demo_def)
  have d: "embedding_dim RESCAL_demo = 2" "num_entities RESCAL_demo = 2"
    "regularize_calls RESCAL_demo = []" by (simp_all add: RESCAL_demo_def)
  have c: "chunks 2 [1, 2, 3, 4 :: real] = [[1, 2], [3, 4]]"
    by (simp add: chunks.simps)
  have u: "[0..<2] = [0, 1]" by (simp add: upt_rec)
  have st: "RESCAL_demo\<lparr>entity_embeddings := Some \<lparr>weight = [[1, 2], [3, 4]], max_norm = None\<rparr>,
              relation_embeddings := Some \<lparr>weight = [[1, 2, 3, 4]], max_norm = None\<rparr>,
              regularize_calls := cs\<rparr> = RESCAL_demo\<lparr>regularize_calls := cs\<rparr>" for cs
    by (simp add: RESCAL_demo_def)
  show ?thesis
    using RESCAL_regularize_once[OF RESCAL_demo_initialized E R v] RESCAL_demo_initialized v
    by (simp add: d c u st row_operand_def col_operand_def mat_operand_def table_after_def)
qed

text \<open>
  Claim C5 as stated, for every initialised model, fails where a table carries
  \<^verbatim>\<open>max_norm\<close>: on the model \<open>RESCAL_mx\<close> the call \<^verbatim>\<open>score_hrt\<close> on the
  valid triple \<open>(0, 0, 1)\<close> rewrites row \<open>0\<close> of the entity table.
\<close>

theorem RESCAL_lookup_clips_table:
  "RESCAL_score_hrt RESCAL_mx [(0, 0, 1)] =
     Inr ([[22 / (5 + renorm_eps)]],
          RESCAL_mx\<lparr>entity_embeddings :=
              Some \<lparr>weight = [[3 / (5 + renorm_eps), 4 / (5 + renorm_eps)], [0, 1]],
                    max_norm = Some 1\<rparr>,
            regularize_calls :=
              [([[[3 / (5 + renorm_eps), 4 / (5 + renorm_eps)]]], [[[1, 2], [3, 4]]],
                [[[0], [1]]])]\<rparr>) \<and>
   entity_embeddings RESCAL_mx = Some \<lparr>weight = [[3, 4], [0, 1]], max_norm = Some 1\<rparr> \<and>
   3 / (5 + renorm_eps) \<noteq> 3"
proof -
  have v: "valid_hrt RESCAL_mx [(0, 0, 1)]"
    by (simp add: valid_hrt_def RESCAL_mx_def)
  have E: "entity_embeddings RESCAL_mx = Some \<lparr>weight = [[3, 4], [0, 1]], max_norm = Some 1\<rparr>"
    and R: "relation_embeddings RESCAL_mx = Some \<lparr>weight = [[1, 2, 3, 4]], max_norm = None\<rparr>"
    by (simp_all add: RESCAL_mx_def)
  have c: "chunks 2 [1, 2, 3, 4 :: real] = [[1, 2], [3, 4]]"
    by (simp add: chunks.simps)
  have V: "table_after \<lparr>weight = [[1, 2, 3, 4]], max_norm = None\<rparr> [0] = [[1, 2, 3, 4]]"
    by (simp add: table_after_def)
  have ne: "3 / (5 + renorm_eps) \<noteq> 3" by (simp add: renorm_eps_def)
  have "RESCAL_score_hrt RESCAL_mx [(0, 0, 1)] =
     Inr ([[22 / (5 + renorm_eps)]],
          RESCAL_mx\<lparr>entity_embeddings :=
              Some \<lparr>weight = [[3 / (5 + renorm_eps), 4 / (5 + renorm_eps)], [0, 1]],
                    max_norm = Some 1\<rparr>,
            regularize_calls :=
              [([[[3 / (5 + renorm_eps), 4 / (5 + renorm_eps)]]], [[[1, 2], [3, 4]]],
                [[[0], [1]]])]\<rparr>)"
    using RESCAL_score_hrt_general[OF RESCAL_mx_initialized E R v refl refl refl]
    by (simp add: RESCAL_mx_tables V bilinear_2 c row_operand_def col_operand_def mat_operand_def
        regularize_if_necessary_def RESCAL_mx_def add_divide_distrib[symmetric])
  then show ?thesis using E ne by simp
qed

section \<open>RESCAL: linearity in each operand\<close>

lemma bilinear_scale_h:
  "d \<le> length h \<Longrightarrow> bilinear d (map (\<lambda>x. \<alpha> * x) h) R t = \<alpha> * bilinear d h R t"
  by (simp add: bilinear_def sum_distrib_left mult.assoc)

lemma bilinear_scale_t:
  "d \<le> length t \<Longrightarrow> bilinear d h R (map (\<lambda>x. \<alpha> * x) t) = \<alpha> * bilinear d h R t"
  by (simp add: bilinear_def sum_distrib_left mult.assoc mult.left_commute)

lemma bilinear_scale_R:
  assumes "d * d \<le> length R"
  shows "bilinear d h (map (\<lambda>x. \<alpha> * x) R) t = \<alpha> * bilinear d h R t"
proof -
  have "i * d + j < length R" if "i < d" "j < d" for i j
  proof -
    have "i * d + j < i * d + d" using that by simp
    also have "\<dots> = Suc i * d" by simp
    also have "\<dots> \<le> d * d" using that(1) by (metis Suc_leI mult_le_mono1)
    finally show ?thesis using assms by simp
  qed
  then show ?thesis
    by (simp add: bilinear_def sum_distrib_left mult.assoc mult.left_commute)
qed

lemma has_shape_scale_row:
  "has_shape n d (weight E) \<Longrightarrow> has_shape n d (weight (scale_row \<alpha> i E))"
  by (cases "i < length (weight E)")
    (auto simp: has_shape_def scale_row_def list_all_length nth_list_update)

lemma RESCAL_ready_scale_entity:
  "RESCAL_ready self \<Longrightarrow> entity_embeddings self = Some E \<Longrightarrow>
   RESCAL_ready (self\<lparr>entity_embeddings := Some (scale_row \<alpha> i E)\<rparr>)"
  using has_shape_scale_row[of "num_entities self" "embedding_dim self" E \<alpha> i]
  by (simp add: RESCAL_ready_def table_ok_def) (simp add: scale_row_def)

lemma RESCAL_ready_scale_relation:
  "RESCAL_ready self \<Longrightarrow> relation_embeddings self = Some R \<Longrightarrow>
   RESCAL_ready (self\<lparr>relation_embeddings := Some (scale_row \<alpha> i R)\<rparr>)"
  using has_shape_scale_row[of "num_relations self" "embedding_dim self * embedding_dim self" R \<alpha> i]
  by (simp add: RESCAL_ready_def table_ok_def) (simp add: scale_row_def)

lemma map2_map_same: "map2 f xs (map g xs) = map (\<lambda>x. f x (g x)) xs"
  by (induction xs) simp_all

lemma nth_scale_row:
  "i < length (weight E) \<Longrightarrow>
   weight (scale_row \<alpha> k E) ! i = (if i = k then map (\<lambda>x. \<alpha> * x) (weight E ! i) else weight E ! i)"
  by (simp add: scale_row_def nth_list_update)

text \<open>
  Claim C7.  The score \<^verbatim>\<open>score_hrt\<close> returns for a triple is the bilinear form of
  the three operands the call looks up, on every model whose tables are present in their
  declared shapes and for every batch of valid triples, and that form is linear in each
  operand: multiplying one operand by \<open>\<alpha>\<close> and keeping the two others multiplies
  it by \<open>\<alpha>\<close>.  On the stored tables (without \<^verbatim>\<open>max_norm\<close>, so that a lookup
  returns the stored row) this reads: multiplying the matrix of relation \<open>k\<close> by
  \<open>\<alpha>\<close> multiplies the score of every triple of the batch with that relation by
  \<open>\<alpha>\<close>, and multiplying the embedding of entity \<open>e\<close> by \<open>\<alpha>\<close> multiplies
  the score of a triple by \<open>\<alpha>\<close> once for each of its head and tail operands that
  is \<open>e\<close>; the scores of the other triples stay as they are.  The arithmetic is that
  of the reals: the rounding of float32 products is not modelled.
\<close>

theorem RESCAL_score_hrt_linear:
  assumes "RESCAL_initialized self"
    and "entity_embeddings self = Some E" and "relation_embeddings self = Some R"
    and "valid_hrt self batch"
  shows "(\<exists>st W1 W2 V.
            W1 = table_after E (map fst batch) \<and>
            W2 = table_after (E\<lparr>weight := W1\<rparr>) (map (snd \<circ> snd) batch) \<and>
            V = table_after R (map (fst \<circ> snd) batch) \<and>
            RESCAL_score_hrt self batch =
              Inr (map (\<lambda>(h, r, t). [bilinear (embedding_dim self) (W1 ! h) (V ! r) (W2 ! t)])
                     batch, st) \<and>
            list_all (\<lambda>(h, r, t). length (W1 ! h) = embedding_dim self \<and>
                        length (V ! r) = embedding_dim self * embedding_dim self \<and>
                        length (W2 ! t) = embedding_dim self) batch) \<and>
         (\<forall>x M y. length x = embedding_dim self \<and>
                  length M = embedding_dim self * embedding_dim self \<and>
                  length y = embedding_dim self \<longrightarrow>
            bilinear (embedding_dim self) (map (\<lambda>v. \<alpha> * v) x) M y =
              \<alpha> * bilinear (embedding_dim self) x M y \<and>
            bilinear (embedding_dim self) x (map (\<lambda>v. \<alpha> * v) M) y =
              \<alpha> * bilinear (embedding_dim self) x M y \<and>
            bilinear (embedding_dim self) x M (map (\<lambda>v. \<alpha> * v) y) =
              \<alpha> * bilinear (embedding_dim self) x M y) \<and>
         (max_norm E = None \<and> max_norm R = None \<longrightarrow>
            (\<exists>scores st0 st1 st2.
               RESCAL_score_hrt self batch = Inr (scores, st0) \<and>
               RESCAL_score_hrt (self\<lparr>relation_embeddings := Some (scale_row \<alpha> k R)\<rparr>) batch =
                 Inr (map2 (\<lambda>(h, r, t). map (\<lambda>s. (if r = k then \<alpha> else 1) * s)) batch scores,
                      st1) \<and>
               RESCAL_score_hrt (self\<lparr>entity_embeddings := Some (scale_row \<alpha> e E)\<rparr>) batch =
                 Inr (map2 (\<lambda>(h, r, t). map (\<lambda>s. (if h = e then \<alpha> else 1) *
                                                  (if t = e then \<alpha> else 1) * s)) batch scores,
                      st2)))"
proof -
  let ?d = "embedding_dim self"
  note rd = RESCAL_initializedD[OF assms(1,2,3)]
  have part1: "\<exists>st W1 W2 V.
            W1 = table_after E (map fst batch) \<and>
            W2 = table_after (E\<lparr>weight := W1\<rparr>) (map (snd \<circ> snd) batch) \<and>
            V = table_after R (map (fst \<circ> snd) batch) \<and>
            RESCAL_score_hrt self batch =
              Inr (map (\<lambda>(h, r, t). [bilinear ?d (W1 ! h) (V ! r) (W2 ! t)]) batch, st) \<and>
            list_all (\<lambda>(h, r, t). length (W1 ! h) = ?d \<and> length (V ! r) = ?d * ?d \<and>
                        length (W2 ! t) = ?d) batch"
  proof -
    define W1 where "W1 = table_after E (map fst batch)"
    define W2 where "W2 = table_after (E\<lparr>weight := W1\<rparr>) (map (snd \<circ> snd) batch)"
    define V where "V = table_after R (map (fst \<circ> snd) batch)"
    have sh: "has_shape (num_entities self) ?d W1" "has_shape (num_entities self) ?d W2"
        "has_shape (num_relations self) (?d * ?d) V"
      unfolding W1_def W2_def V_def
      using rd(2,3) by (simp_all add: has_shape_table_after)
    have "list_all (\<lambda>(h, r, t). length (W1 ! h) = ?d \<and> length (V ! r) = ?d * ?d \<and>
                        length (W2 ! t) = ?d) batch"
      using assms(4) sh by (auto simp: valid_hrt_def has_shape_def list_all_iff list_all_length)
    then show ?thesis
      using RESCAL_score_hrt_general[OF assms W1_def W2_def V_def] W1_def W2_def V_def by blast
  qed
  have part2: "\<forall>x M y. length x = ?d \<and> length M = ?d * ?d \<and> length y = ?d \<longrightarrow>
            bilinear ?d (map (\<lambda>v. \<alpha> * v) x) M y = \<alpha> * bilinear ?d x M y \<and>
            bilinear ?d x (map (\<lambda>v. \<alpha> * v) M) y = \<alpha> * bilinear ?d x M y \<and>
            bilinear ?d x M (map (\<lambda>v. \<alpha> * v) y) = \<alpha> * bilinear ?d x M y"
    by (simp add: bilinear_scale_h bilinear_scale_R bilinear_scale_t)
  have part3: "\<exists>scores st0 st1 st2.
               RESCAL_score_hrt self batch = Inr (scores, st0) \<and>
               RESCAL_score_hrt (self\<lparr>relation_embeddings := Some (scale_row \<alpha> k R)\<rparr>) batch =
                 Inr (map2 (\<lambda>(h, r, t). map (\<lambda>s. (if r = k then \<alpha> else 1) * s)) batch scores,
                      st1) \<and>
               RESCAL_score_hrt (self\<lparr>entity_embeddings := Some (scale_row \<alpha> e E)\<rparr>) batch =
                 Inr (map2 (\<lambda>(h, r, t). map (\<lambda>s. (if h = e then \<alpha> else 1) *
                                                  (if t = e then \<alpha> else 1) * s)) batch scores,
                      st2)"
    if mn: "max_norm E = None" "max_norm R = None"
  proof -
    have ready: "RESCAL_ready self"
      using assms(1,2,3) mn
      by (simp add: RESCAL_ready_def RESCAL_initialized_def table_ok_def table_shaped_def)
    let ?f = "\<lambda>(h, r, t). [bilinear ?d (weight E ! h) (weight R ! r) (weight E ! t)]"
    have c0: "\<exists>st. RESCAL_score_hrt self batch = Inr (map ?f batch, st)"
      using RESCAL_score_hrt_closed[OF ready assms(2,3,4)] by blast
    have lenE: "length (weight E) = num_entities self"
      and lenR: "length (weight R) = num_relations self"
      and rowsE: "list_all (\<lambda>row. length row = ?d) (weight E)"
      and rowsR: "list_all (\<lambda>row. length row = ?d * ?d) (weight R)"
      using rd(2,3) by (simp_all add: has_shape_def)
    have el: "h < length (weight E) \<and> r < length (weight R) \<and> t < length (weight E) \<and>
              length (weight E ! h) = ?d \<and> length (weight R ! r) = ?d * ?d \<and>
              length (weight E ! t) = ?d" if "(h, r, t) \<in> set batch" for h r t
      using assms(4) that lenE lenR rowsE rowsR
      by (auto simp: valid_hrt_def list_all_iff list_all_length)
    let ?s1 = "self\<lparr>relation_embeddings := Some (scale_row \<alpha> k R)\<rparr>"
    have "RESCAL_score_hrt ?s1 batch =
          Inr (map (\<lambda>(h, r, t). [bilinear ?d (weight E ! h) (weight (scale_row \<alpha> k R) ! r)
                                   (weight E ! t)]) batch,
               regularize_if_necessary
                 (row_operand (map (\<lambda>(h, r, t). weight E ! h) batch))
                 (mat_operand ?d (map (\<lambda>(h, r, t). weight (scale_row \<alpha> k R) ! r) batch))
                 (col_operand (map (\<lambda>(h, r, t). weight E ! t) batch)) ?s1)"
      using RESCAL_score_hrt_closed[of ?s1 E "scale_row \<alpha> k R" batch]
        RESCAL_ready_scale_relation[OF ready assms(3)] assms(2,4)
      by (simp add: valid_hrt_def)
    moreover have "map (\<lambda>(h, r, t). [bilinear ?d (weight E ! h) (weight (scale_row \<alpha> k R) ! r)
                                   (weight E ! t)]) batch =
          map (\<lambda>x. (case x of (h, r, t) \<Rightarrow> map (\<lambda>s. (if r = k then \<alpha> else 1) * s)) (?f x)) batch"
      using el by (intro map_cong refl) (auto simp: nth_scale_row bilinear_scale_R)
    ultimately have c1: "\<exists>st. RESCAL_score_hrt ?s1 batch =
          Inr (map2 (\<lambda>(h, r, t). map (\<lambda>s. (if r = k then \<alpha> else 1) * s)) batch (map ?f batch), st)"
      by (simp add: map2_map_same)
    let ?s2 = "self\<lparr>entity_embeddings := Some (scale_row \<alpha> e E)\<rparr>"
    have "RESCAL_score_hrt ?s2 batch =
          Inr (map (\<lambda>(h, r, t). [bilinear ?d (weight (scale_row \<alpha> e E) ! h) (weight R ! r)
                                   (weight (scale_row \<alpha> e E) ! t)]) batch,
               regularize_if_necessary
                 (row_operand (map (\<lambda>(h, r, t). weight (scale_row \<alpha> e E) ! h) batch))
                 (mat_operand ?d (map (\<lambda>(h, r, t). weight R ! r) batch))
                 (col_operand (map (\<lambda>(h, r, t). weight (scale_row \<alpha> e E) ! t) batch)) ?s2)"
      using RESCAL_score_hrt_closed[of ?s2 "scale_row \<alpha> e E" R batch]
        RESCAL_ready_scale_entity[OF ready assms(2)] assms(3,4)
      by (simp add: valid_hrt_def)
    moreover have "map (\<lambda>(h, r, t). [bilinear ?d (weight (scale_row \<alpha> e E) ! h) (weight R ! r)
                                   (weight (scale_row \<alpha> e E) ! t)]) batch =
          map (\<lambda>x. (case x of (h, r, t) \<Rightarrow> map (\<lambda>s. (if h = e then \<alpha> else 1) *
                                                      (if t = e then \<alpha> else 1) * s)) (?f x)) batch"
      using el
      by (intro map_cong refl) (auto simp: nth_scale_row bilinear_scale_h bilinear_scale_t)
    ultimately have c2: "\<exists>st. RESCAL_score_hrt ?s2 batch =
          Inr (map2 (\<lambda>(h, r, t). map (\<lambda>s. (if h = e then \<alpha> else 1) *
                                            (if t = e then \<alpha> else 1) * s)) batch (map ?f batch), st)"
      by (simp add: map2_map_same)
    show ?thesis using c0 c1 c2 by blast
  qed
  show ?thesis using part1 part2 part3 by blast
qed

theorem RESCAL_score_hrt_linear_witness:
  "RESCAL_initialized RESCAL_demo \<and> valid_hrt RESCAL_demo [(0, 0, 1), (0, 0, 0)] \<and>
   (\<exists>st0 st1 st2.
      RESCAL_score_hrt RESCAL_demo [(0, 0, 1), (0, 0, 0)] = Inr ([[61], [27]], st0) \<and>
      RESCAL_score_hrt (RESCAL_demo\<lparr>relation_embeddings :=
          Some \<lparr>weight = [[5, 10, 15, 20]], max_norm = None\<rparr>\<rparr>) [(0, 0, 1), (0, 0, 0)] =
        Inr ([[305], [135]], st1) \<and>
      RESCAL_score_hrt (RESCAL_demo\<lparr>entity_embeddings :=
          Some \<lparr>weight = [[5, 10], [3, 4]], max_norm = None\<rparr>\<rparr>) [(0, 0, 1), (0, 0, 0)] =
        Inr ([[305], [675]], st2))"
proof -
  let ?b = "[(0, 0, 1), (0, 0, 0)] :: (nat \<times> nat \<times> nat) list"
  let ?E = "\<lparr>weight = [[1, 2], [3, 4 :: real]], max_norm = None :: real option\<rparr>"
  let ?R = "\<lparr>weight = [[1, 2, 3, 4 :: real]], max_norm = None :: real option\<rparr>"
  have v: "valid_hrt RESCAL_demo ?b"
    by (simp add: valid_hrt_def RESCAL_demo_def)
  have E: "entity_embeddings RESCAL_demo = Some ?E"
    and R: "relation_embeddings RESCAL_demo = Some ?R"
    by (simp_all add: RESCAL_demo_def)
  have mn: "max_norm ?E = None \<and> max_norm ?R = None" by simp
  obtain scores st0 st1 st2 where
    r: "RESCAL_score_hrt RESCAL_demo ?b = Inr (scores, st0)"
       "RESCAL_score_hrt (RESCAL_demo\<lparr>relation_embeddings := Some (scale_row 5 0 ?R)\<rparr>) ?b =
          Inr (map2 (\<lambda>(h, r, t). map (\<lambda>s. (if r = 0 then 5 else 1) * s)) ?b scores, st1)"
       "RESCAL_score_hrt (RESCAL_demo\<lparr>entity_embeddings := Some (scale_row 5 0 ?E)\<rparr>) ?b =
          Inr (map2 (\<lambda>(h, r, t). map (\<lambda>s. (if h = 0 then 5 else 1) *
                                             (if t = 0 then 5 else 1) * s)) ?b scores, st2)"
    using RESCAL_score_hrt_linear[OF RESCAL_demo_initialized E R v, of 5 0 0] mn by blast
  have "scores = [[61], [27]]"
    using r(1) RESCAL_score_hrt_closed[OF RESCAL_demo_ready E R v]
    by (simp add: RESCAL_demo_def bilinear_2)
  then show ?thesis
    using r RESCAL_demo_initialized v by (simp add: scale_row_def)
qed

section \<open>TransR: evaluating the scoring functions step by step\<close>

lemma chunks_Nil: "chunks n [] = []"
  by (simp add: chunks.simps)

lemma chunks_Cons: "0 < n \<Longrightarrow> chunks n (x # xs) = take n (x # xs) # chunks n (drop n (x # xs))"
  by (subst chunks.simps) simp

lemma and_then_Inr: "and_then (Inr v) f = f v"
  by (simp add: and_then_def)

lemma and_then_Inl: "and_then (Inl e) f = Inl e"
  by (simp add: and_then_def)

lemmas tensor_eval =
  chunks_Nil chunks_Cons and_then_Inr and_then_Inl call_table_def Embedding_forward_def embedding_renorm_def
  clip_row_def view2_def view3_def view3_lead1_def bcast_def matmul3_def matmul2_def ncols_def
  ew2_def ew3_def renorm_def select_last_def flatten3_def renorm_factor_def
  l2norm_Nil l2norm_single l2norm_pair0 neg_sq_norm_sum
  eval_nat_numeral Let_def

lemma TransR_score_hrt_steps:
  assumes "call_table (entity_embeddings self) (map fst b) = Inr (h0, E1)"
    and "view3 1 (embedding_dim self) (concat h0) = Inr h"
    and "call_table (relation_embeddings self) (map (fst \<circ> snd) b) = Inr (r, R1)"
    and "Embedding_forward E1 (map (snd \<circ> snd) b) = Inr (t0, E2)"
    and "view3 1 (embedding_dim self) (concat t0) = Inr t"
    and "call_table (relation_projections self) (map (fst \<circ> snd) b) = Inr (m0, P1)"
    and "view3 (embedding_dim self) (relation_embedding_dim self) (concat m0) = Inr m_r"
    and "matmul3 h m_r = Inr hm"
    and "view2 (relation_embedding_dim self) (flatten3 (renorm hm 1)) = Inr h_bot"
    and "matmul3 t m_r = Inr tm"
    and "view2 (relation_embedding_dim self) (flatten3 (renorm tm 1)) = Inr t_bot"
    and "ew2 (+) h_bot r = Inr s1"
    and "ew2 (-) s1 t_bot = Inr s2"
  shows "TransR_score_hrt self b =
         Inr (map (\<lambda>row. [neg_sq_norm row]) s2,
              self\<lparr>entity_embeddings := Some E2, relation_embeddings := Some R1,
                   relation_projections := Some P1\<rparr>)"
  unfolding TransR_score_hrt_def
  by (simp only: assms and_then_Inr prod.case)

text \<open>
  The worked example of the specification: \<open>h = [1, 0]\<close>, \<open>t = [0, 1]\<close>,
  \<open>r = [0, 0]\<close> and the identity projection give the score \<open>-2\<close>.
\<close>

lemma TransR_score_hrt_example: "TransR_score_hrt (TransR_model [[1, 0], [0, 1]] [[0, 0]] [[1, 0, 0, 1]]) [(0, 0, 1)]
   = Inr ([[-2]], TransR_model [[1, 0], [0, 1]] [[0, 0]] [[1, 0, 0, 1]])"
proof -
  let ?M = "TransR_model [[1, 0], [0, 1]] [[0, 0]] [[1, 0, 0, 1]]"
  let ?E = "\<lparr>weight = [[1, 0], [0, 1]], max_norm = Some 1\<rparr>"
  let ?R = "\<lparr>weight = [[0, 0]], max_norm = Some 1\<rparr>"
  let ?P = "\<lparr>weight = [[1, 0, 0, 1]], max_norm = None\<rparr>"
  have f: "entity_embeddings ?M = Some ?E" "relation_embeddings ?M = Some ?R"
    "relation_projections ?M = Some ?P" "embedding_dim ?M = 2" "relation_embedding_dim ?M = 2"
    by (simp_all add: TransR_model_def)
  have "TransR_score_hrt ?M [(0, 0, 1)] =
        Inr (map (\<lambda>row. [neg_sq_norm row]) [[1, -1]],
             ?M\<lparr>entity_embeddings := Some ?E, relation_embeddings := Some ?R,
                 relation_projections := Some ?P\<rparr>)"
  proof (rule TransR_score_hrt_steps)
    show "call_table (entity_embeddings ?M) (map fst [(0, 0, 1)]) = Inr ([[1, 0]], ?E)"
      by (simp add: f tensor_eval)
    show "view3 1 (embedding_dim ?M) (concat [[1, 0]]) = Inr [[[1, 0]]]"
      by (simp add: f tensor_eval)
    show "call_table (relation_embeddings ?M) (map (fst \<circ> snd) [(0, 0, 1)]) = Inr ([[0, 0]], ?R)"
      by (simp add: f tensor_eval)
    show "Embedding_forward ?E (map (snd \<circ> snd) [(0, 0, 1)]) = Inr ([[0, 1]], ?E)"
      by (simp add: f tensor_eval)
    show "view3 1 (embedding_dim ?M) (concat [[0, 1]]) = Inr [[[0, 1]]]"
      by (simp add: f tensor_eval)
    show "call_table (relation_projections ?M) (map (fst \<circ> snd) [(0, 0, 1)]) = Inr ([[1, 0, 0, 1]], ?P)"
      by (simp add: f tensor_eval)
    show "view3 (embedding_dim ?M) (relation_embedding_dim ?M) (concat [[1, 0, 0, 1]]) = Inr [[[1, 0], [0, 1]]]"
      by (simp add: f tensor_eval)
    show "matmul3 [[[1, 0]]] [[[1, 0], [0, 1]]] = Inr [[[1, 0]]]"
      by (simp add: f tensor_eval)
    show "view2 (relation_embedding_dim ?M) (flatten3 (renorm [[[1, 0]]] 1)) = Inr [[1, 0]]"
      by (simp add: f tensor_eval)
    show "matmul3 [[[0, 1]]] [[[1, 0], [0, 1]]] = Inr [[[0, 1]]]"
      by (simp add: f tensor_eval)
    show "view2 (relation_embedding_dim ?M) (flatten3 (renorm [[[0, 1]]] 1)) = Inr [[0, 1]]"
      by (simp add: f tensor_eval)
    show "ew2 (+) [[1, 0]] [[0, 0]] = Inr [[1, 0]]"
      by (simp add: f tensor_eval)
    show "ew2 (-) [[1, 0]] [[0, 1]] = Inr [[1, -1]]"
      by (simp add: f tensor_eval)
  qed
  then show ?thesis by (simp add: neg_sq_norm_sum TransR_model_def)
qed

section \<open>TransR: the projected vectors are not clipped to the unit ball\<close>

text \<open>
  Claim C1.  \<^verbatim>\<open>TransR.score_hrt\<close> is to return \<open>-\<parallel>h\<^sub>p + r - t\<^sub>p\<parallel>\<^sup>2\<close> with the
  projected vectors clipped to Euclidean norm at most one.  The code calls
  \<^verbatim>\<open>torch.renorm\<close> with \<open>dim = -1\<close>, which bounds every coordinate slice across
  the batch and not every projected vector.  For the single triple \<open>(0, 0, 1)\<close> with
  \<open>h = [1, 0]\<close>, \<open>r = t = [0, 0]\<close> and the projection \<open>[[3, 4], [0, 0]]\<close> the
  projected head \<open>[3, 4]\<close> is turned into a vector of norm almost \<open>\<surd>2\<close>: the code
  returns a score below \<open>-3/2\<close>, where the rule of the specification gives a score of at
  least \<open>-1\<close>.
\<close>

theorem TransR_score_hrt_not_unit_clipped:
  "TransR_score_hrt (TransR_model [[1, 0], [0, 0]] [[0, 0]] [[3, 4, 0, 0]]) [(0, 0, 1)] =
     Inr ([[- ((3 / (3 + renorm_eps))\<^sup>2 + (4 / (4 + renorm_eps))\<^sup>2)]],
          TransR_model [[1, 0], [0, 0]] [[0, 0]] [[3, 4, 0, 0]]) \<and>
   - ((3 / (3 + renorm_eps))\<^sup>2 + (4 / (4 + renorm_eps))\<^sup>2) < - (3 / 2) \<and>
   - 1 \<le> spec_TransR_score [1, 0] [0, 0] [0, 0] [[3, 4], [0, 0]]"
proof -
  let ?M = "TransR_model [[1, 0], [0, 0]] [[0, 0]] [[3, 4, 0, 0]]"
  let ?E = "\<lparr>weight = [[1, 0], [0, 0]], max_norm = Some 1\<rparr>"
  let ?R = "\<lparr>weight = [[0, 0]], max_norm = Some 1\<rparr>"
  let ?P = "\<lparr>weight = [[3, 4, 0, 0]], max_norm = None\<rparr>"
  let ?a = "3 / (3 + renorm_eps)" and ?b = "4 / (4 + renorm_eps)"
  have f: "entity_embeddings ?M = Some ?E" "relation_embeddings ?M = Some ?R"
    "relation_projections ?M = Some ?P" "embedding_dim ?M = 2" "relation_embedding_dim ?M = 2"
    by (simp_all add: TransR_model_def)
  have "TransR_score_hrt ?M [(0, 0, 1)] =
        Inr (map (\<lambda>row. [neg_sq_norm row]) [[?a, ?b]],
             ?M\<lparr>entity_embeddings := Some ?E, relation_embeddings := Some ?R,
                 relation_projections := Some ?P\<rparr>)"
  proof (rule TransR_score_hrt_steps)
    show "call_table (entity_embeddings ?M) (map fst [(0, 0, 1)]) = Inr ([[1, 0]], ?E)"
      by (simp add: f tensor_eval)
    show "view3 1 (embedding_dim ?M) (concat [[1, 0]]) = Inr [[[1, 0]]]"
      by (simp add: f tensor_eval)
    show "call_table (relation_embeddings ?M) (map (fst \<circ> snd) [(0, 0, 1)]) = Inr ([[0, 0]], ?R)"
      by (simp add: f tensor_eval)
    show "Embedding_forward ?E (map (snd \<circ> snd) [(0, 0, 1)]) = Inr ([[0, 0]], ?E)"
      by (simp add: f tensor_eval)
    show "view3 1 (embedding_dim ?M) (concat [[0, 0]]) = Inr [[[0, 0]]]"
      by (simp add: f tensor_eval)
    show "call_table (relation_projections ?M) (map (fst \<circ> snd) [(0, 0, 1)]) =
          Inr ([[3, 4, 0, 0]], ?P)"
      by (simp add: f tensor_eval)
    show "view3 (embedding_dim ?M) (relation_embedding_dim ?M) (concat [[3, 4, 0, 0]]) =
          Inr [[[3, 4], [0, 0]]]"
      by (simp add: f tensor_eval)
    show "matmul3 [[[1, 0]]] [[[3, 4], [0, 0]]] = Inr [[[3, 4]]]"
      by (simp add: f tensor_eval)
    show "view2 (relation_embedding_dim ?M) (flatten3 (renorm [[[3, 4]]] 1)) = Inr [[?a, ?b]]"
      by (simp add: f tensor_eval)
    show "matmul3 [[[0, 0]]] [[[3, 4], [0, 0]]] = Inr [[[0, 0]]]"
      by (simp add: f tensor_eval)
    show "view2 (relation_embedding_dim ?M) (flatten3 (renorm [[[0, 0]]] 1)) = Inr [[0, 0]]"
      by (simp add: f tensor_eval)
    show "ew2 (+) [[?a, ?b]] [[0, 0]] = Inr [[?a, ?b]]"
      by (simp add: f tensor_eval)
    show "ew2 (-) [[?a, ?b]] [[0, 0]] = Inr [[?a, ?b]]"
      by (simp add: f tensor_eval)
  qed
  then have code: "TransR_score_hrt ?M [(0, 0, 1)] = Inr ([[- (?a\<^sup>2 + ?b\<^sup>2)]], ?M)"
    by (simp add: neg_sq_norm_sum TransR_model_def)
  have low: "- (?a\<^sup>2 + ?b\<^sup>2) < - (3 / 2)"
    by (simp add: renorm_eps_def power2_eq_square)
  have "spec_project [1, 0] [[3, 4], [0, 0]] = [3, 4]" "spec_project [0, 0] [[3, 4], [0, 0]] = [0, 0]"
    by (simp_all add: spec_project_def ncols_def eval_nat_numeral)
  then have "spec_TransR_score [1, 0] [0, 0] [0, 0] [[3, 4], [0, 0]] =
             - ((3 * (1 / (5 + renorm_eps)))\<^sup>2 + (4 * (1 / (5 + renorm_eps)))\<^sup>2)"
    by (simp add: spec_TransR_score_def clip_row_def l2norm_3_4 l2norm_pair0 neg_sq_norm_sum)
  then have spec: "- 1 \<le> spec_TransR_score [1, 0] [0, 0] [0, 0] [[3, 4], [0, 0]]"
    by (simp add: renorm_eps_def power2_eq_square)
  show ?thesis using code low spec by simp
qed

section \<open>Consistency of the three scoring modes\<close>

lemma RESCAL_modes_consistent:
  assumes "RESCAL_ready self"
    and "entity_embeddings self = Some E" and "relation_embeddings self = Some R"
    and "valid_hrt self [(h, r, t)]"
  shows "\<exists>s row_t row_h st0 st1 st2.
           RESCAL_score_hrt self [(h, r, t)] = Inr ([[s]], st0) \<and>
           RESCAL_score_t self [(h, r)] = Inr ([row_t], st1) \<and>
           length row_t = num_entities self \<and> row_t ! t = s \<and>
           RESCAL_score_h self [(r, t)] = Inr ([row_h], st2) \<and>
           length row_h = num_entities self \<and> row_h ! h = s"
proof -
  have v: "valid_hr self [(h, r)]" "valid_rt self [(r, t)]"
      "h < num_entities self" "t < num_entities self"
    using assms(4) by (simp_all add: valid_hrt_def valid_hr_def valid_rt_def)
  show ?thesis
    using RESCAL_score_hrt_closed[OF assms] RESCAL_score_t_closed[OF assms(1,2,3) v(1)]
      RESCAL_score_h_closed[OF assms(1,2,3) v(2)] v(3,4)
    by simp
qed

lemma TransR_score_t_steps:
  assumes "call_table (entity_embeddings self) (map fst b) = Inr (h0, E1)"
    and "view3 1 (embedding_dim self) (concat h0) = Inr h"
    and "call_table (relation_embeddings self) (map snd b) = Inr (r0, R1)"
    and "view3 1 (relation_embedding_dim self) (concat r0) = Inr r"
    and "view3_lead1 (embedding_dim self) (concat (weight E1)) = Inr t"
    and "call_table (relation_projections self) (map snd b) = Inr (m0, P1)"
    and "view3 (embedding_dim self) (relation_embedding_dim self) (concat m0) = Inr m_r"
    and "matmul3 h m_r = Inr hm"
    and "view3 1 (relation_embedding_dim self) (flatten3 (renorm hm 1)) = Inr h_bot"
    and "matmul3 t m_r = Inr tm"
    and "view3 (num_entities self) (relation_embedding_dim self) (flatten3 (renorm tm 1)) =
         Inr t_bot"
    and "ew3 (+) h_bot r = Inr s1"
    and "ew3 (-) s1 t_bot = Inr s2"
  shows "TransR_score_t self b =
         Inr (map (map neg_sq_norm) s2,
              self\<lparr>entity_embeddings := Some E1, relation_embeddings := Some R1,
                   relation_projections := Some P1\<rparr>)"
  unfolding TransR_score_t_def
  by (simp only: assms and_then_Inr prod.case)

lemma TransR_score_h_steps:
  assumes "entity_embeddings self = Some E0"
    and "view3_lead1 (embedding_dim self) (concat (weight E0)) = Inr h_alias"
    and "call_table (relation_embeddings self) (map fst b) = Inr (r0, R1)"
    and "view3 1 (relation_embedding_dim self) (concat r0) = Inr r"
    and "Embedding_forward E0 (map snd b) = Inr (t0, E1)"
    and "view3 1 (embedding_dim self) (concat t0) = Inr t"
    and "call_table (relation_projections self) (map fst b) = Inr (m0, P1)"
    and "view3 (embedding_dim self) (relation_embedding_dim self) (concat m0) = Inr m_r"
    and "view3_lead1 (embedding_dim self) (concat (weight E1)) = Inr h"
    and "matmul3 h m_r = Inr hm"
    and "view3 (num_entities self) (relation_embedding_dim self) (flatten3 (renorm hm 1)) =
         Inr h_bot"
    and "matmul3 t m_r = Inr tm"
    and "view3 1 (relation_embedding_dim self) (flatten3 (renorm tm 1)) = Inr t_bot"
    and "ew3 (+) h_bot r = Inr s1"
    and "ew3 (-) s1 t_bot = Inr s2"
  shows "TransR_score_h self b =
         Inr (map (map neg_sq_norm) s2,
              self\<lparr>entity_embeddings := Some E1, relation_embeddings := Some R1,
                   relation_projections := Some P1\<rparr>)"
  unfolding TransR_score_h_def
  by (simp only: assms and_then_Inr prod.case option.case)

text \<open>
  Claim C3.  The score of \<^verbatim>\<open>score_hrt\<close> on \<open>(h, r, t)\<close> is to equal column \<open>t\<close>
  of \<^verbatim>\<open>score_t\<close> on \<open>(h, r)\<close> and column \<open>h\<close> of \<^verbatim>\<open>score_h\<close> on
  \<open>(r, t)\<close>.  For RESCAL this is \<open>RESCAL_modes_consistent\<close>.  For TransR it fails:
  \<^verbatim>\<open>torch.renorm\<close> with \<open>dim = -1\<close> takes its norms over every row the call
  projects, so that the all-candidate modes scale the projected candidate by the norm of
  a coordinate over the whole entity table.  With the entities \<open>[1, 0]\<close> and
  \<open>[0, 1]\<close>, the relation \<open>[0, 0]\<close> and the projection \<open>[[3, 0], [4, 0]]\<close>, the
  triple \<open>(0, 0, 1)\<close> gets three different scores.
\<close>

theorem TransR_modes_disagree:
  "TransR_score_hrt (TransR_model [[1, 0], [0, 1]] [[0, 0]] [[3, 0, 4, 0]]) [(0, 0, 1)] =
     Inr ([[- ((3 / (3 + renorm_eps) - 4 / (4 + renorm_eps))\<^sup>2)]],
          TransR_model [[1, 0], [0, 1]] [[0, 0]] [[3, 0, 4, 0]]) \<and>
   TransR_score_t (TransR_model [[1, 0], [0, 1]] [[0, 0]] [[3, 0, 4, 0]]) [(0, 0)] =
     Inr ([[- ((3 / (3 + renorm_eps) - 3 / (5 + renorm_eps))\<^sup>2),
            - ((3 / (3 + renorm_eps) - 4 / (5 + renorm_eps))\<^sup>2)]],
          TransR_model [[1, 0], [0, 1]] [[0, 0]] [[3, 0, 4, 0]]) \<and>
   TransR_score_h (TransR_model [[1, 0], [0, 1]] [[0, 0]] [[3, 0, 4, 0]]) [(0, 1)] =
     Inr ([[- ((3 / (5 + renorm_eps) - 4 / (4 + renorm_eps))\<^sup>2),
            - ((4 / (5 + renorm_eps) - 4 / (4 + renorm_eps))\<^sup>2)]],
          TransR_model [[1, 0], [0, 1]] [[0, 0]] [[3, 0, 4, 0]]) \<and>
   - ((3 / (3 + renorm_eps) - 4 / (5 + renorm_eps))\<^sup>2)
     < - ((3 / (3 + renorm_eps) - 4 / (4 + renorm_eps))\<^sup>2) \<and>
   - ((3 / (5 + renorm_eps) - 4 / (4 + renorm_eps))\<^sup>2)
     < - ((3 / (3 + renorm_eps) - 4 / (4 + renorm_eps))\<^sup>2)"
proof -
  let ?M = "TransR_model [[1, 0], [0, 1]] [[0, 0]] [[3, 0, 4, 0]]"
  let ?E = "\<lparr>weight = [[1, 0], [0, 1]], max_norm = Some 1\<rparr>"
  let ?R = "\<lparr>weight = [[0, 0]], max_norm = Some 1\<rparr>"
  let ?P = "\<lparr>weight = [[3, 0, 4, 0]], max_norm = None\<rparr>"
  let ?a = "3 / (3 + renorm_eps)" and ?b = "4 / (4 + renorm_eps)"
  let ?p = "3 / (5 + renorm_eps)" and ?q = "4 / (5 + renorm_eps)"
  have f: "entity_embeddings ?M = Some ?E" "relation_embeddings ?M = Some ?R"
    "relation_projections ?M = Some ?P" "embedding_dim ?M = 2" "relation_embedding_dim ?M = 2"
    "num_entities ?M = 2"
    by (simp_all add: TransR_model_def)
  have st: "?M\<lparr>entity_embeddings := Some ?E, relation_embeddings := Some ?R,
                relation_projections := Some ?P\<rparr> = ?M"
    by (simp add: TransR_model_def)
  have lk: "call_table (Some ?E) [0] = Inr ([[1, 0]], ?E)"
      "Embedding_forward ?E [1] = Inr ([[0, 1]], ?E)"
      "call_table (Some ?R) [0] = Inr ([[0, 0]], ?R)"
      "call_table (Some ?P) [0] = Inr ([[3, 0, 4, 0]], ?P)"
    by (simp_all add: tensor_eval)
  have vw: "view3 1 2 [1, 0] = Inr [[[1, 0]]]" "view3 1 2 [0, 1] = Inr [[[0, 1]]]"
      "view3 1 2 [0, 0] = Inr [[[0, 0]]]"
      "view3 2 2 [3, 0, 4, 0] = Inr [[[3, 0], [4, 0]]]"
    by (simp_all add: tensor_eval)
  have "view3_lead1 2 [1, 0, 0, 1] = Inr [chunks 2 [1, 0, 0, 1]]"
    by (simp add: view3_lead1_def)
  then have vl: "view3_lead1 2 [1, 0, 0, 1] = Inr [[[1, 0], [0, 1]]]"
    by (simp add: tensor_eval)
  have mm: "matmul3 [[[1, 0]]] [[[3, 0], [4, 0]]] = Inr [[[3, 0]]]"
      "matmul3 [[[0, 1]]] [[[3, 0], [4, 0]]] = Inr [[[4, 0]]]"
      "matmul3 [[[1, 0], [0, 1]]] [[[3, 0], [4, 0]]] = Inr [[[3, 0], [4, 0]]]"
    by (simp_all add: tensor_eval)
  have rn: "renorm [[[3, 0]]] 1 = [[[?a, 0]]]" "renorm [[[4, 0]]] 1 = [[[?b, 0]]]"
      "renorm [[[3, 0], [4, 0]]] 1 = [[[?p, 0], [?q, 0]]]"
    by (simp_all add: tensor_eval l2norm_3_4)
  have hrt: "TransR_score_hrt ?M [(0, 0, 1)] = Inr ([[- ((?a - ?b)\<^sup>2)]], ?M)"
  proof -
    have "TransR_score_hrt ?M [(0, 0, 1)] =
          Inr (map (\<lambda>row. [neg_sq_norm row]) [[?a - ?b, 0]],
               ?M\<lparr>entity_embeddings := Some ?E, relation_embeddings := Some ?R,
                   relation_projections := Some ?P\<rparr>)"
    proof (rule TransR_score_hrt_steps)
      show "call_table (entity_embeddings ?M) (map fst [(0, 0, 1)]) = Inr ([[1, 0]], ?E)"
        using lk by (simp add: f)
      show "view3 1 (embedding_dim ?M) (concat [[1, 0]]) = Inr [[[1, 0]]]"
        using vw by (simp add: f)
      show "call_table (relation_embeddings ?M) (map (fst \<circ> snd) [(0, 0, 1)]) = Inr ([[0, 0]], ?R)"
        using lk by (simp add: f)
      show "Embedding_forward ?E (map (snd \<circ> snd) [(0, 0, 1)]) = Inr ([[0, 1]], ?E)"
        using lk by simp
      show "view3 1 (embedding_dim ?M) (concat [[0, 1]]) = Inr [[[0, 1]]]"
        using vw by (simp add: f)
      show "call_table (relation_projections ?M) (map (fst \<circ> snd) [(0, 0, 1)]) =
            Inr ([[3, 0, 4, 0]], ?P)"
        using lk by (simp add: f)
      show "view3 (embedding_dim ?M) (relation_embedding_dim ?M) (concat [[3, 0, 4, 0]]) =
            Inr [[[3, 0], [4, 0]]]"
        using vw by (simp add: f)
      show "matmul3 [[[1, 0]]] [[[3, 0], [4, 0]]] = Inr [[[3, 0]]]" by (rule mm)
      show "view2 (relation_embedding_dim ?M) (flatten3 (renorm [[[3, 0]]] 1)) = Inr [[?a, 0]]"
        unfolding rn by (simp add: f tensor_eval)
      show "matmul3 [[[0, 1]]] [[[3, 0], [4, 0]]] = Inr [[[4, 0]]]" by (rule mm)
      show "view2 (relation_embedding_dim ?M) (flatten3 (renorm [[[4, 0]]] 1)) = Inr [[?b, 0]]"
        unfolding rn by (simp add: f tensor_eval)
      show "ew2 (+) [[?a, 0]] [[0, 0]] = Inr [[?a, 0]]"
        by (simp add: tensor_eval)
      show "ew2 (-) [[?a, 0]] [[?b, 0]] = Inr [[?a - ?b, 0]]"
        by (simp add: tensor_eval)
    qed
    then show ?thesis unfolding st by (simp add: neg_sq_norm_sum)
  qed
  have t: "TransR_score_t ?M [(0, 0)] = Inr ([[- ((?a - ?p)\<^sup>2), - ((?a - ?q)\<^sup>2)]], ?M)"
  proof -
    have "TransR_score_t ?M [(0, 0)] =
          Inr (map (map neg_sq_norm) [[[?a - ?p, 0], [?a - ?q, 0]]],
               ?M\<lparr>entity_embeddings := Some ?E, relation_embeddings := Some ?R,
                   relation_projections := Some ?P\<rparr>)"
    proof (rule TransR_score_t_steps)
      show "call_table (entity_embeddings ?M) (map fst [(0, 0)]) = Inr ([[1, 0]], ?E)"
        using lk by (simp add: f)
      show "view3 1 (embedding_dim ?M) (concat [[1, 0]]) = Inr [[[1, 0]]]"
        using vw by (simp add: f)
      show "call_table (relation_embeddings ?M) (map snd [(0, 0)]) = Inr ([[0, 0]], ?R)"
        using lk by (simp add: f)
      show "view3 1 (relation_embedding_dim ?M) (concat [[0, 0]]) = Inr [[[0, 0]]]"
        using vw by (simp add: f)
      show "view3_lead1 (embedding_dim ?M) (concat (weight ?E)) = Inr [[[1, 0], [0, 1]]]"
        using vl by (simp add: f)
      show "call_table (relation_projections ?M) (map snd [(0, 0)]) = Inr ([[3, 0, 4, 0]], ?P)"
        using lk by (simp add: f)
      show "view3 (embedding_dim ?M) (relation_embedding_dim ?M) (concat [[3, 0, 4, 0]]) =
            Inr [[[3, 0], [4, 0]]]"
        using vw by (simp add: f)
      show "matmul3 [[[1, 0]]] [[[3, 0], [4, 0]]] = Inr [[[3, 0]]]" by (rule mm)
      show "view3 1 (relation_embedding_dim ?M) (flatten3 (renorm [[[3, 0]]] 1)) = Inr [[[?a, 0]]]"
        unfolding rn by (simp add: f tensor_eval)
      show "matmul3 [[[1, 0], [0, 1]]] [[[3, 0], [4, 0]]] = Inr [[[3, 0], [4, 0]]]" by (rule mm)
      show "view3 (num_entities ?M) (relation_embedding_dim ?M)
              (flatten3 (renorm [[[3, 0], [4, 0]]] 1)) = Inr [[[?p, 0], [?q, 0]]]"
        unfolding rn by (simp add: f tensor_eval)
      show "ew3 (+) [[[?a, 0]]] [[[0, 0]]] = Inr [[[?a, 0]]]"
        by (simp add: tensor_eval)
      show "ew3 (-) [[[?a, 0]]] [[[?p, 0], [?q, 0]]] = Inr [[[?a - ?p, 0], [?a - ?q, 0]]]"
        by (simp add: tensor_eval)
    qed
    then show ?thesis unfolding st by (simp add: neg_sq_norm_sum)
  qed
  have h: "TransR_score_h ?M [(0, 1)] = Inr ([[- ((?p - ?b)\<^sup>2), - ((?q - ?b)\<^sup>2)]], ?M)"
  proof -
    have "TransR_score_h ?M [(0, 1)] =
          Inr (map (map neg_sq_norm) [[[?p - ?b, 0], [?q - ?b, 0]]],
               ?M\<lparr>entity_embeddings := Some ?E, relation_embeddings := Some ?R,
                   relation_projections := Some ?P\<rparr>)"
    proof (rule TransR_score_h_steps)
      show "entity_embeddings ?M = Some ?E" by (rule f)
      show "view3_lead1 (embedding_dim ?M) (concat (weight ?E)) = Inr [[[1, 0], [0, 1]]]"
        using vl by (simp add: f)
      show "call_table (relation_embeddings ?M) (map fst [(0, 1)]) = Inr ([[0, 0]], ?R)"
        using lk by (simp add: f)
      show "view3 1 (relation_embedding_dim ?M) (concat [[0, 0]]) = Inr [[[0, 0]]]"
        using vw by (simp add: f)
      show "Embedding_forward ?E (map snd [(0, 1)]) = Inr ([[0, 1]], ?E)"
        using lk by simp
      show "view3 1 (embedding_dim ?M) (concat [[0, 1]]) = Inr [[[0, 1]]]"
        using vw by (simp add: f)
      show "call_table (relation_projections ?M) (map fst [(0, 1)]) = Inr ([[3, 0, 4, 0]], ?P)"
        using lk by (simp add: f)
      show "view3 (embedding_dim ?M) (relation_embedding_dim ?M) (concat [[3, 0, 4, 0]]) =
            Inr [[[3, 0], [4, 0]]]"
        using vw by (simp add: f)
      show "view3_lead1 (embedding_dim ?M) (concat (weight ?E)) = Inr [[[1, 0], [0, 1]]]"
        using vl by (simp add: f)
      show "matmul3 [[[1, 0], [0, 1]]] [[[3, 0], [4, 0]]] = Inr [[[3, 0], [4, 0]]]" by (rule mm)
      show "view3 (num_entities ?M) (relation_embedding_dim ?M)
              (flatten3 (renorm [[[3, 0], [4, 0]]] 1)) = Inr [[[?p, 0], [?q, 0]]]"
        unfolding rn by (simp add: f tensor_eval)
      show "matmul3 [[[0, 1]]] [[[3, 0], [4, 0]]] = Inr [[[4, 0]]]" by (rule mm)
      show "view3 1 (relation_embedding_dim ?M) (flatten3 (renorm [[[4, 0]]] 1)) = Inr [[[?b, 0]]]"
        unfolding rn by (simp add: f tensor_eval)
      show "ew3 (+) [[[?p, 0], [?q, 0]]] [[[0, 0]]] = Inr [[[?p, 0], [?q, 0]]]"
        by (simp add: tensor_eval)
      show "ew3 (-) [[[?p, 0], [?q, 0]]] [[[?b, 0]]] = Inr [[[?p - ?b, 0], [?q - ?b, 0]]]"
        by (simp add: tensor_eval)
    qed
    then show ?thesis unfolding st by (simp add: neg_sq_norm_sum)
  qed
  have ineq: "- ((?a - ?q)\<^sup>2) < - ((?a - ?b)\<^sup>2)" "- ((?p - ?b)\<^sup>2) < - ((?a - ?b)\<^sup>2)"
    by (simp_all add: renorm_eps_def power2_eq_square)
  show ?thesis using hrt t h ineq by simp
qed

section \<open>TransR: normalisation after a parameter update\<close>

lemma sum_sq_divide: "(\<Sum>x\<leftarrow>v. (x / c)\<^sup>2) = (\<Sum>x\<leftarrow>v. x\<^sup>2) / (c::real)\<^sup>2"
  by (induction v) (simp_all add: power_divide add_divide_distrib)

lemma l2norm_divide: "l2norm (map (\<lambda>x. x / c) v) = l2norm v / \<bar>c\<bar>"
  by (simp add: l2norm_def comp_def sum_sq_divide real_sqrt_divide)

lemma l2norm_nonneg: "0 \<le> l2norm v"
proof -
  have "0 \<le> (\<Sum>x\<leftarrow>v. x\<^sup>2)" by (induction v) auto
  then show ?thesis by (simp add: l2norm_def)
qed

lemma normalize_eps_pos: "0 < normalize_eps"
  by (simp add: normalize_eps_def)

lemma float32_max_ge: "2 ^ 126 \<le> float32_max"
  by (simp add: float32_max_def)

lemma sum_sq_nonneg: "0 \<le> (\<Sum>x\<leftarrow>v. (x::real)\<^sup>2)"
  by (induction v) auto

lemma sum_sq_le_float32_max:
  assumes "l2norm v \<le> 2 ^ 63"
  shows "(\<Sum>x\<leftarrow>v. x\<^sup>2) \<le> float32_max"
proof -
  have "(\<Sum>x\<leftarrow>v. x\<^sup>2) = (l2norm v)\<^sup>2"
    by (simp add: l2norm_def sum_sq_nonneg)
  also have "\<dots> \<le> (2 ^ 63)\<^sup>2"
    using assms l2norm_nonneg[of v] by (intro power_mono) simp_all
  also have "\<dots> \<le> float32_max" using float32_max_ge by simp
  finally show ?thesis .
qed

lemma l2norm_normalize_row:
  "normalize_eps \<le> l2norm v \<Longrightarrow> l2norm v \<le> 2 ^ 63 \<Longrightarrow> l2norm (normalize_row v) = 1"
  using normalize_eps_pos sum_sq_le_float32_max[of v]
  by (simp add: normalize_row_def l2norm_divide max_def)

text \<open>
  A row whose squared norm overflows is turned into a zero row, whatever its norm:
  \<open>2\<^sup>6\<^sup>7\<close> squared is beyond the largest float32.
\<close>

lemma normalize_row_overflow: "normalize_row [2 ^ 67, 0] = [0, 0]"
  by (simp add: normalize_row_def float32_max_def)

text \<open>
  Claim C4, as amended.  On a model whose entity table is present,
  \<^verbatim>\<open>TransR.post_parameter_update\<close> succeeds, keeps the number of rows, and gives
  Euclidean norm exactly one (in exact arithmetic) to every entity row whose norm before
  the call was at least \<open>1e-12\<close>, the \<open>eps\<close> of \<^verbatim>\<open>functional.normalize\<close>, and
  at most \<open>2\<^sup>6\<^sup>3\<close>, so that its squared norm does not overflow float32.
\<close>

theorem TransR_post_parameter_update_unit_norm:
  assumes "entity_embeddings self = Some E"
    and "i < length (weight E)"
    and "normalize_eps \<le> l2norm (weight E ! i)"
    and "l2norm (weight E ! i) \<le> 2 ^ 63"
  shows "\<exists>self' E'. TransR_post_parameter_update base_hook self = Inr self' \<and>
           entity_embeddings self' = Some E' \<and>
           length (weight E') = length (weight E) \<and>
           l2norm (weight E' ! i) = 1"
  using assms
  by (simp add: TransR_post_parameter_update_def normalize_def l2norm_normalize_row)

theorem TransR_post_parameter_update_unit_norm_witness:
  "entity_embeddings (TransR_model [[0, 0], [3, 4]] [[0, 0]] [[1, 0, 0, 1]]) =
     Some \<lparr>weight = [[0, 0], [3, 4]], max_norm = Some 1\<rparr> \<and>
   (1::nat) < length (weight \<lparr>weight = [[0, 0], [3, 4]], max_norm = Some 1\<rparr>) \<and>
   normalize_eps \<le> l2norm (weight \<lparr>weight = [[0, 0], [3, 4]], max_norm = Some (1::real)\<rparr> ! 1) \<and>
   l2norm (weight \<lparr>weight = [[0, 0], [3, 4]], max_norm = Some (1::real)\<rparr> ! 1) \<le> 2 ^ 63 \<and>
   (\<exists>self' E'. TransR_post_parameter_update (\<lambda>c. c)
        (TransR_model [[0, 0], [3, 4]] [[0, 0]] [[1, 0, 0, 1]]) = Inr self' \<and>
      entity_embeddings self' = Some E' \<and> l2norm (weight E' ! 1) = 1)"
proof -
  let ?E = "\<lparr>weight = [[0, 0], [3, 4 :: real]], max_norm = Some (1::real)\<rparr>"
  have a: "entity_embeddings (TransR_model [[0, 0], [3, 4]] [[0, 0]] [[1, 0, 0, 1]]) = Some ?E"
    by (simp add: TransR_model_def)
  have b: "(1::nat) < length (weight ?E)" by simp
  have c: "normalize_eps \<le> l2norm (weight ?E ! 1)"
    by (simp add: l2norm_3_4 normalize_eps_def)
  have d: "l2norm (weight ?E ! 1) \<le> 2 ^ 63"
    by (simp add: l2norm_3_4)
  show ?thesis
    using TransR_post_parameter_update_unit_norm[OF a b c d, of "\<lambda>c. c"] a b c d by blast
qed

text \<open>
  Claim C4 as stated, for every row whatever its norm, fails on a zero row: it is
  divided by \<open>eps\<close> and stays zero.
\<close>

theorem TransR_post_parameter_update_zero_row:
  "TransR_post_parameter_update (\<lambda>c. c) (TransR_model [[0, 0], [3, 4]] [[0, 0]] [[1, 0, 0, 1]]) =
     Inr (TransR_model [[0, 0], [3 / 5, 4 / 5]] [[0, 0]] [[1, 0, 0, 1]]) \<and>
   l2norm [0, 0] \<noteq> 1"
  by (simp add: TransR_post_parameter_update_def TransR_model_def normalize_def normalize_row_def
      l2norm_3_4 l2norm_pair0 normalize_eps_def float32_max_def)

section \<open>TransR: clearing and re-creating the weights\<close>

text \<open>
  Claim C9.  \<^verbatim>\<open>TransR.clear_weights_\<close> sets the entity and the relation table to
  \<^verbatim>\<open>None\<close> and leaves the projection table as it is; a following
  \<^verbatim>\<open>init_empty_weights_\<close> therefore creates a fresh entity table and a fresh
  relation table and keeps the projection table the model had before.
\<close>

theorem TransR_clear_keeps_projections:
  assumes "relation_projections self = Some P"
  shows "entity_embeddings (TransR_clear_weights self) = None \<and>
         relation_embeddings (TransR_clear_weights self) = None \<and>
         relation_projections (TransR_clear_weights self) = Some P \<and>
         entity_embeddings (TransR_init_empty_weights e0 r0 p0 (TransR_clear_weights self)) =
           Some (new_Embedding (Some 1) e0) \<and>
         relation_embeddings (TransR_init_empty_weights e0 r0 p0 (TransR_clear_weights self)) =
           Some (new_Embedding (Some 1) (normalize r0)) \<and>
         relation_projections (TransR_init_empty_weights e0 r0 p0 (TransR_clear_weights self)) =
           Some P"
  using assms by (simp add: TransR_clear_weights_def TransR_init_empty_weights_def Let_def)

theorem TransR_clear_keeps_projections_witness:
  "relation_projections (TransR_model [[1, 0], [0, 1]] [[0, 0]] [[3, 0, 4, 0]]) =
     Some \<lparr>weight = [[3, 0, 4, 0]], max_norm = None\<rparr> \<and>
   entity_embeddings (TransR_init_empty_weights [[0, 1], [1, 0]] [[3, 4]] [[1, 1, 1, 1]]
       (TransR_clear_weights (TransR_model [[1, 0], [0, 1]] [[0, 0]] [[3, 0, 4, 0]]))) =
     Some \<lparr>weight = [[0, 1], [1, 0]], max_norm = Some 1\<rparr> \<and>
   relation_embeddings (TransR_init_empty_weights [[0, 1], [1, 0]] [[3, 4]] [[1, 1, 1, 1]]
       (TransR_clear_weights (TransR_model [[1, 0], [0, 1]] [[0, 0]] [[3, 0, 4, 0]]))) =
     Some \<lparr>weight = [[3 / 5, 4 / 5]], max_norm = Some 1\<rparr> \<and>
   relation_projections (TransR_init_empty_weights [[0, 1], [1, 0]] [[3, 4]] [[1, 1, 1, 1]]
       (TransR_clear_weights (TransR_model [[1, 0], [0, 1]] [[0, 0]] [[3, 0, 4, 0]]))) =
     Some \<lparr>weight = [[3, 0, 4, 0]], max_norm = None\<rparr>"
proof -
  have p: "relation_projections (TransR_model [[1, 0], [0, 1]] [[0, 0]] [[3, 0, 4, 0]]) =
           Some \<lparr>weight = [[3, 0, 4, 0]], max_norm = None\<rparr>"
    by (simp add: TransR_model_def)
  have n: "normalize [[3, 4]] = [[3 / 5, 4 / 5]]"
    by (simp add: normalize_def normalize_row_def l2norm_3_4 normalize_eps_def float32_max_def)
  show ?thesis
    using TransR_clear_keeps_projections[OF p, of "[[0, 1], [1, 0]]" "[[3, 4]]" "[[1, 1, 1, 1]]"] p
    by (simp add: new_Embedding_def n)
qed

section \<open>TransR: the scores do not depend on \<^verbatim>\<open>scoring_fct_norm\<close>\<close>

lemma map_sum_and_then:
  "map_sum id g (and_then m f) = and_then m (\<lambda>v. map_sum id g (f v))"
  by (cases m) (simp_all add: and_then_def)

text \<open>
  Claim C10.  Two TransR models that differ only in \<^verbatim>\<open>scoring_fct_norm\<close> return
  the same result (the same scores, or the same error) from \<^verbatim>\<open>score_hrt\<close>,
  \<^verbatim>\<open>score_t\<close> and \<^verbatim>\<open>score_h\<close> on every batch: none of the three reads the
  field.
\<close>

theorem TransR_scores_ignore_scoring_fct_norm:
  "map_sum id fst (TransR_score_hrt (self\<lparr>scoring_fct_norm := p\<rparr>) hrt) =
     map_sum id fst (TransR_score_hrt (self\<lparr>scoring_fct_norm := q\<rparr>) hrt) \<and>
   map_sum id fst (TransR_score_t (self\<lparr>scoring_fct_norm := p\<rparr>) hr) =
     map_sum id fst (TransR_score_t (self\<lparr>scoring_fct_norm := q\<rparr>) hr) \<and>
   map_sum id fst (TransR_score_h (self\<lparr>scoring_fct_norm := p\<rparr>) rt) =
     map_sum id fst (TransR_score_h (self\<lparr>scoring_fct_norm := q\<rparr>) rt)"
  by (simp add: TransR_score_hrt_def TransR_score_t_def TransR_score_h_def map_sum_and_then
      case_prod_unfold split: option.split)

text \<open>
  A model with \<^verbatim>\<open>scoring_fct_norm = 2\<close> scores the worked example of the
  specification as the model with \<^verbatim>\<open>scoring_fct_norm = 1\<close> does.
\<close>

theorem TransR_scores_ignore_scoring_fct_norm_witness:
  "map_sum id fst (TransR_score_hrt
      ((TransR_model [[1, 0], [0, 1]] [[0, 0]] [[1, 0, 0, 1]])\<lparr>scoring_fct_norm := 2\<rparr>)
      [(0, 0, 1)]) = Inr [[- 2]]"
proof -
  let ?M = "TransR_model [[1, 0], [0, 1]] [[0, 0]] [[1, 0, 0, 1]]"
  have "?M\<lparr>scoring_fct_norm := 1\<rparr> = ?M" by (simp add: TransR_model_def)
  then show ?thesis
    using TransR_scores_ignore_scoring_fct_norm[where self = ?M and p = 2 and q = 1
        and hrt = "[(0, 0, 1)]"]
      TransR_score_hrt_example
    by simp
qed

section \<open>The renorm clip\<close>

lemma sum_sq_scale: "(\<Sum>x\<leftarrow>v. (x * c)\<^sup>2) = (\<Sum>x\<leftarrow>v. x\<^sup>2) * (c::real)\<^sup>2"
  by (induction v) (simp_all add: power_mult_distrib distrib_right)

lemma l2norm_scale: "l2norm (map (\<lambda>x. x * c) v) = l2norm v * \<bar>c\<bar>"
  by (simp add: l2norm_def comp_def sum_sq_scale real_sqrt_mult)

lemma renorm_eps_pos: "0 < renorm_eps"
  by (simp add: renorm_eps_def)

text \<open>The divisor of the scale is at least \<open>1e-7\<close>; the scale lies in \<open>(0, 1]\<close>.\<close>

lemma renorm_factor_bounds:
  assumes "0 \<le> n"
  shows "0 < n + renorm_eps" and "0 < renorm_factor 1 n" and "renorm_factor 1 n \<le> 1"
    and "n * renorm_factor 1 n \<le> 1"
  using assms renorm_eps_pos by (auto simp: renorm_factor_def field_simps)

lemma renorm_factor_small: "n \<le> 1 \<Longrightarrow> renorm_factor 1 n = 1"
  by (simp add: renorm_factor_def)

lemma select_last_renorm:
  assumes "rect3 d x" "j < d"
  shows "select_last (renorm x m) j =
         map (\<lambda>v. v * renorm_factor m (l2norm (select_last x j))) (select_last x j)"
proof -
  have len: "length row = d" if "row \<in> set (concat x)" for row
    using assms(1) that by (auto simp: rect3_def list_all_iff)
  let ?g = "\<lambda>row. map (\<lambda>j. row ! j * renorm_factor m (l2norm (select_last x j))) [0..<length row]"
  have "concat (renorm x m) = map ?g (concat x)"
    by (simp add: renorm_def map_concat)
  then have "select_last (renorm x m) j = map (\<lambda>row. ?g row ! j) (concat x)"
    by (simp add: select_last_def comp_def)
  also have "\<dots> = map (\<lambda>row. row ! j * renorm_factor m (l2norm (select_last x j))) (concat x)"
    using len assms(2) by (intro map_cong refl) simp
  finally show ?thesis by (simp add: select_last_def comp_def)
qed

lemma rect3_renorm: "rect3 d x \<Longrightarrow> rect3 d (renorm x m)"
  by (auto simp: rect3_def renorm_def list_all_iff)

text \<open>Applying the clip twice is applying it once.\<close>

lemma renorm_idempotent:
  assumes "rect3 d x"
  shows "renorm (renorm x 1) 1 = renorm x 1"
proof -
  let ?y = "renorm x 1"
  have one: "renorm_factor 1 (l2norm (select_last ?y j)) = 1" if "j < d" for j
  proof -
    let ?n = "l2norm (select_last x j)"
    have "l2norm (select_last ?y j) = ?n * \<bar>renorm_factor 1 ?n\<bar>"
      by (simp add: select_last_renorm[OF assms that] l2norm_scale)
    also have "\<dots> = ?n * renorm_factor 1 ?n"
      using renorm_factor_bounds(2)[OF l2norm_nonneg, of "select_last x j"] by simp
    also have "\<dots> \<le> 1" by (rule renorm_factor_bounds(4)[OF l2norm_nonneg])
    finally show ?thesis by (rule renorm_factor_small)
  qed
  have row: "map (\<lambda>j. row ! j * renorm_factor 1 (l2norm (select_last ?y j))) [0..<length row] = row"
    if "length row = d" for row :: "real list"
  proof -
    have "map (\<lambda>j. row ! j * renorm_factor 1 (l2norm (select_last ?y j))) [0..<length row] =
          map (\<lambda>j. row ! j) [0..<length row]"
      using that one by (intro map_cong refl) simp
    then show ?thesis by (simp add: map_nth)
  qed
  have len: "length r = d" if "blk \<in> set ?y" "r \<in> set blk" for blk r
    using rect3_renorm[OF assms, of 1] that by (auto simp: rect3_def list_all_iff)
  have "map (map (\<lambda>row. map (\<lambda>j. row ! j * renorm_factor 1 (l2norm (select_last ?y j)))
                                [0..<length row])) ?y = map (map (\<lambda>row. row)) ?y"
  proof (intro map_cong refl)
    fix blk r assume "blk \<in> set ?y" "r \<in> set blk"
    then have "length r = d" by (rule len)
    then show "map (\<lambda>j. r ! j * renorm_factor 1 (l2norm (select_last ?y j))) [0..<length r] = r"
      by (rule row)
  qed
  then show ?thesis by (subst renorm_def) simp
qed

text \<open>A zero row is left as it is, whatever else the batch holds.\<close>

lemma renorm_zero_row:
  assumes "blk \<in> set x" "row \<in> set blk" "list_all (\<lambda>v. v = 0) row"
  shows "map (\<lambda>j. row ! j * renorm_factor m (l2norm (select_last x j))) [0..<length row] = row"
proof -
  have "row ! j = 0" if "j < length row" for j
    using assms(3) that by (simp add: list_all_length)
  then have "map (\<lambda>j. row ! j * renorm_factor m (l2norm (select_last x j))) [0..<length row] =
             map (\<lambda>j. row ! j) [0..<length row]"
    by (intro map_cong refl) simp
  then show ?thesis by (simp add: map_nth)
qed

text \<open>A single vector inside the unit ball is left as it is.\<close>

lemma abs_nth_le_l2norm: "j < length v \<Longrightarrow> \<bar>v ! j\<bar> \<le> l2norm v"
proof (induction v arbitrary: j)
  case Nil then show ?case by simp
next
  case (Cons a v)
  have s: "0 \<le> (\<Sum>x\<leftarrow>v. x\<^sup>2)" by (induction v) auto
  show ?case
  proof (cases j)
    case 0
    have "\<bar>a\<bar> = sqrt (a\<^sup>2)" by simp
    also have "\<dots> \<le> sqrt (a\<^sup>2 + (\<Sum>x\<leftarrow>v. x\<^sup>2))" using s by (intro real_sqrt_le_mono) simp
    finally show ?thesis using 0 by (simp add: l2norm_def)
  next
    case (Suc k)
    have "\<bar>v ! k\<bar> \<le> l2norm v" using Cons.prems Suc by (intro Cons.IH) simp
    also have "\<dots> \<le> sqrt (a\<^sup>2 + (\<Sum>x\<leftarrow>v. x\<^sup>2))"
      unfolding l2norm_def by (intro real_sqrt_le_mono) simp
    finally show ?thesis using Suc by (simp add: l2norm_def)
  qed
qed

lemma renorm_single_vector:
  assumes "l2norm v \<le> 1"
  shows "renorm [[v]] 1 = [[v]]"
proof -
  have "renorm_factor 1 (l2norm (select_last [[v]] j)) = 1" if "j < length v" for j
  proof -
    have "l2norm (select_last [[v]] j) = \<bar>v ! j\<bar>" by (simp add: select_last_def l2norm_def)
    also have "\<dots> \<le> 1" using abs_nth_le_l2norm[OF that] assms by simp
    finally show ?thesis by (rule renorm_factor_small)
  qed
  then have "map (\<lambda>j. v ! j * renorm_factor 1 (l2norm (select_last [[v]] j))) [0..<length v] =
             map (\<lambda>j. v ! j) [0..<length v]"
    by (intro map_cong refl) simp
  then show ?thesis by (simp add: renorm_def map_nth)
qed

section \<open>TransR: what the renorm call does to a batch\<close>

lemmas view_eval = view2_def view3_def view3_lead1_def flatten3_def

lemmas chunks_eval = chunks_Nil chunks_Cons

lemma l2norm_34_1: "l2norm [3 / 4, 1] = 5 / 4"
  unfolding l2norm_def by (rule real_sqrt_unique) (simp_all add: power2_eq_square)

lemma spec_project_id2: "spec_project [x, y] [[c, 0], [0, c]] = [x * c, y * c]"
  by (simp add: spec_project_def ncols_def eval_nat_numeral)

text \<open>
  Claim C6.  The clip is to be idempotent and to leave every vector of norm at most one
  as it is.  Idempotence holds for the call the code makes (\<open>renorm_idempotent\<close>), and a
  batch of one vector inside the unit ball is left alone (\<open>renorm_single_vector\<close>).  In
  a batch of several rows the call scales by the norm of a coordinate over the batch:
  for the heads \<open>[3/4, 0]\<close> and \<open>[1, 0]\<close> under the identity projection, both of
  norm at most one, the first coordinate has norm \<open>5/4\<close> over the batch and both rows
  are scaled down, which changes the scores.
\<close>

theorem renorm_changes_rows_inside_unit_ball:
  "l2norm [3 / 4, 0] \<le> 1 \<and> l2norm [1, 0] \<le> 1 \<and>
   renorm [[[3 / 4, 0]], [[1, 0]]] 1 =
     [[[3 / 4 / (5 / 4 + renorm_eps), 0]], [[1 / (5 / 4 + renorm_eps), 0]]] \<and>
   3 / 4 / (5 / 4 + renorm_eps) < 3 / 4 \<and>
   TransR_score_hrt (TransR_model [[3 / 4, 0], [1, 0], [0, 0]] [[0, 0]] [[1, 0, 0, 1]])
       [(0, 0, 2), (1, 0, 2)] =
     Inr ([[- ((3 / 4 / (5 / 4 + renorm_eps))\<^sup>2)], [- ((1 / (5 / 4 + renorm_eps))\<^sup>2)]],
          TransR_model [[3 / 4, 0], [1, 0], [0, 0]] [[0, 0]] [[1, 0, 0, 1]]) \<and>
   spec_TransR_score [3 / 4, 0] [0, 0] [0, 0] [[1, 0], [0, 1]] = - ((3 / 4)\<^sup>2)"
proof -
  let ?M = "TransR_model [[3 / 4, 0], [1, 0], [0, 0]] [[0, 0]] [[1, 0, 0, 1]]"
  let ?E = "\<lparr>weight = [[3 / 4, 0], [1, 0], [0, 0]], max_norm = Some 1\<rparr>"
  let ?R = "\<lparr>weight = [[0, 0]], max_norm = Some 1\<rparr>"
  let ?P = "\<lparr>weight = [[1, 0, 0, 1]], max_norm = None\<rparr>"
  let ?p = "3 / 4 / (5 / 4 + renorm_eps)" and ?q = "1 / (5 / 4 + renorm_eps)"
  have f: "entity_embeddings ?M = Some ?E" "relation_embeddings ?M = Some ?R"
    "relation_projections ?M = Some ?P" "embedding_dim ?M = 2" "relation_embedding_dim ?M = 2"
    by (simp_all add: TransR_model_def)
  have st: "?M\<lparr>entity_embeddings := Some ?E, relation_embeddings := Some ?R,
                relation_projections := Some ?P\<rparr> = ?M"
    by (simp add: TransR_model_def)
  have n: "l2norm [3 / 4, 0] \<le> 1" "l2norm [1, 0] \<le> 1"
    by (simp_all add: l2norm_pair0)
  have rn: "renorm [[[3 / 4, 0]], [[1, 0]]] 1 = [[[?p, 0]], [[?q, 0]]]"
    by (simp add: tensor_eval l2norm_34_1)
  have rz: "renorm [[[0, 0]], [[0, 0]]] 1 = [[[0, 0]], [[0, 0]]]"
    by (simp add: tensor_eval)
  have lt: "?p < 3 / 4"
    by (simp add: renorm_eps_def)
  have "TransR_score_hrt ?M [(0, 0, 2), (1, 0, 2)] =
        Inr (map (\<lambda>row. [neg_sq_norm row]) [[?p, 0], [?q, 0]],
             ?M\<lparr>entity_embeddings := Some ?E, relation_embeddings := Some ?R,
                 relation_projections := Some ?P\<rparr>)"
  proof (rule TransR_score_hrt_steps)
    show "call_table (entity_embeddings ?M) (map fst [(0, 0, 2), (1, 0, 2)]) =
          Inr ([[3 / 4, 0], [1, 0]], ?E)"
      by (simp add: f tensor_eval)
    show "view3 1 (embedding_dim ?M) (concat [[3 / 4, 0], [1, 0]]) = Inr [[[3 / 4, 0]], [[1, 0]]]"
      by (simp add: f view_eval) (simp add: chunks_eval)
    show "call_table (relation_embeddings ?M) (map (fst \<circ> snd) [(0, 0, 2), (1, 0, 2)]) =
          Inr ([[0, 0], [0, 0]], ?R)"
      by (simp add: f tensor_eval)
    show "Embedding_forward ?E (map (snd \<circ> snd) [(0, 0, 2), (1, 0, 2)]) =
          Inr ([[0, 0], [0, 0]], ?E)"
      by (simp add: f tensor_eval)
    show "view3 1 (embedding_dim ?M) (concat [[0, 0], [0, 0]]) = Inr [[[0, 0]], [[0, 0]]]"
      by (simp add: f view_eval) (simp add: chunks_eval)
    show "call_table (relation_projections ?M) (map (fst \<circ> snd) [(0, 0, 2), (1, 0, 2)]) =
          Inr ([[1, 0, 0, 1], [1, 0, 0, 1]], ?P)"
      by (simp add: f tensor_eval)
    show "view3 (embedding_dim ?M) (relation_embedding_dim ?M)
            (concat [[1, 0, 0, 1], [1, 0, 0, 1]]) = Inr [[[1, 0], [0, 1]], [[1, 0], [0, 1]]]"
      by (simp add: f view_eval) (simp add: chunks_eval)
    show "matmul3 [[[3 / 4, 0]], [[1, 0]]] [[[1, 0], [0, 1]], [[1, 0], [0, 1]]] =
          Inr [[[3 / 4, 0]], [[1, 0]]]"
      by (simp add: tensor_eval)
    show "view2 (relation_embedding_dim ?M) (flatten3 (renorm [[[3 / 4, 0]], [[1, 0]]] 1)) =
          Inr [[?p, 0], [?q, 0]]"
      unfolding rn by (simp add: f view_eval) (simp add: chunks_eval)
    show "matmul3 [[[0, 0]], [[0, 0]]] [[[1, 0], [0, 1]], [[1, 0], [0, 1]]] =
          Inr [[[0, 0]], [[0, 0]]]"
      by (simp add: tensor_eval)
    show "view2 (relation_embedding_dim ?M) (flatten3 (renorm [[[0, 0]], [[0, 0]]] 1)) =
          Inr [[0, 0], [0, 0]]"
      unfolding rz by (simp add: f view_eval) (simp add: chunks_eval)
    show "ew2 (+) [[?p, 0], [?q, 0]] [[0, 0], [0, 0]] = Inr [[?p, 0], [?q, 0]]"
      by (simp add: tensor_eval)
    show "ew2 (-) [[?p, 0], [?q, 0]] [[0, 0], [0, 0]] = Inr [[?p, 0], [?q, 0]]"
      by (simp add: tensor_eval)
  qed
  then have code: "TransR_score_hrt ?M [(0, 0, 2), (1, 0, 2)] =
                   Inr ([[- (?p\<^sup>2)], [- (?q\<^sup>2)]], ?M)"
    unfolding st by (simp add: neg_sq_norm_sum)
  have spec: "spec_TransR_score [3 / 4, 0] [0, 0] [0, 0] [[1, 0], [0, 1]] = - ((3 / 4)\<^sup>2)"
    by (simp add: spec_TransR_score_def spec_project_id2 clip_row_def l2norm_pair0 neg_sq_norm_sum)
  show ?thesis using n rn lt code spec by simp
qed

text \<open>
  Claim C8.  A projected vector of zero or almost zero norm is to pass the clip unchanged,
  with no division by a small number.  The call the code makes never divides by less than
  \<open>1 + 1e-7\<close> (\<open>renorm_factor_bounds\<close>, the division happens only for a norm above
  one), it leaves every zero row as it is (\<open>renorm_zero_row\<close>), and a batch of one vector
  of norm at most one as well (\<open>renorm_single_vector\<close>).  A row of small but non-zero
  norm is not safe from the clip, though: next to a long row in the same batch it is
  scaled by the norm of the coordinate over the batch.  With the projected heads
  \<open>[1e-6, 0]\<close> and \<open>[2, 0]\<close> the first is roughly halved.
\<close>

theorem renorm_rescales_short_row:
  "l2norm [1 / 1000000, 0] = 1 / 1000000 \<and>
   2 \<le> l2norm [1 / 1000000, 2] \<and>
   renorm [[[1 / 1000000, 0]], [[2, 0]]] 1 =
     [[[1 / 1000000 / (l2norm [1 / 1000000, 2] + renorm_eps), 0]],
      [[2 / (l2norm [1 / 1000000, 2] + renorm_eps), 0]]] \<and>
   1 / 1000000 / (l2norm [1 / 1000000, 2] + renorm_eps) < 1 / 2000000 \<and>
   TransR_score_hrt (TransR_model [[1 / 2000000, 0], [1, 0], [0, 0]] [[0, 0]] [[2, 0, 0, 2]])
       [(0, 0, 2), (1, 0, 2)] =
     Inr ([[- ((1 / 1000000 / (l2norm [1 / 1000000, 2] + renorm_eps))\<^sup>2)],
           [- ((2 / (l2norm [1 / 1000000, 2] + renorm_eps))\<^sup>2)]],
          TransR_model [[1 / 2000000, 0], [1, 0], [0, 0]] [[0, 0]] [[2, 0, 0, 2]]) \<and>
   spec_TransR_score [1 / 2000000, 0] [0, 0] [0, 0] [[2, 0], [0, 2]] = - ((1 / 1000000)\<^sup>2)"
proof -
  let ?M = "TransR_model [[1 / 2000000, 0], [1, 0], [0, 0]] [[0, 0]] [[2, 0, 0, 2]]"
  let ?E = "\<lparr>weight = [[1 / 2000000, 0], [1, 0], [0, 0]], max_norm = Some 1\<rparr>"
  let ?R = "\<lparr>weight = [[0, 0]], max_norm = Some 1\<rparr>"
  let ?P = "\<lparr>weight = [[2, 0, 0, 2]], max_norm = None\<rparr>"
  let ?N = "l2norm [1 / 1000000, 2]"
  let ?p = "1 / 1000000 / (?N + renorm_eps)" and ?q = "2 / (?N + renorm_eps)"
  have f: "entity_embeddings ?M = Some ?E" "relation_embeddings ?M = Some ?R"
    "relation_projections ?M = Some ?P" "embedding_dim ?M = 2" "relation_embedding_dim ?M = 2"
    by (simp_all add: TransR_model_def)
  have st: "?M\<lparr>entity_embeddings := Some ?E, relation_embeddings := Some ?R,
                relation_projections := Some ?P\<rparr> = ?M"
    by (simp add: TransR_model_def)
  have n0: "l2norm [1 / 1000000, 0] = 1 / 1000000"
    by (simp add: l2norm_pair0)
  have N2: "2 \<le> ?N"
    using abs_nth_le_l2norm[of 1 "[1 / 1000000, 2]"] by simp
  then have N1: "1 < ?N" by simp
  have rn: "renorm [[[1 / 1000000, 0]], [[2, 0]]] 1 = [[[?p, 0]], [[?q, 0]]]"
    using N1 by (simp add: tensor_eval)
  have rz: "renorm [[[0, 0]], [[0, 0]]] 1 = [[[0, 0]], [[0, 0]]]"
    by (simp add: tensor_eval)
  have "2 < ?N + renorm_eps" using N2 renorm_eps_pos by simp
  then have lt: "?p < 1 / 2000000"
    by (simp add: field_simps)
  have "TransR_score_hrt ?M [(0, 0, 2), (1, 0, 2)] =
        Inr (map (\<lambda>row. [neg_sq_norm row]) [[?p, 0], [?q, 0]],
             ?M\<lparr>entity_embeddings := Some ?E, relation_embeddings := Some ?R,
                 relation_projections := Some ?P\<rparr>)"
  proof (rule TransR_score_hrt_steps)
    show "call_table (entity_embeddings ?M) (map fst [(0, 0, 2), (1, 0, 2)]) =
          Inr ([[1 / 2000000, 0], [1, 0]], ?E)"
      by (simp add: f tensor_eval)
    show "view3 1 (embedding_dim ?M) (concat [[1 / 2000000, 0], [1, 0]]) =
          Inr [[[1 / 2000000, 0]], [[1, 0]]]"
      by (simp add: f view_eval) (simp add: chunks_eval)
    show "call_table (relation_embeddings ?M) (map (fst \<circ> snd) [(0, 0, 2), (1, 0, 2)]) =
          Inr ([[0, 0], [0, 0]], ?R)"
      by (simp add: f tensor_eval)
    show "Embedding_forward ?E (map (snd \<circ> snd) [(0, 0, 2), (1, 0, 2)]) =
          Inr ([[0, 0], [0, 0]], ?E)"
      by (simp add: f tensor_eval)
    show "view3 1 (embedding_dim ?M) (concat [[0, 0], [0, 0]]) = Inr [[[0, 0]], [[0, 0]]]"
      by (simp add: f view_eval) (simp add: chunks_eval)
    show "call_table (relation_projections ?M) (map (fst \<circ> snd) [(0, 0, 2), (1, 0, 2)]) =
          Inr ([[2, 0, 0, 2], [2, 0, 0, 2]], ?P)"
      by (simp add: f tensor_eval)
    show "view3 (embedding_dim ?M) (relation_embedding_dim ?M)
            (concat [[2, 0, 0, 2], [2, 0, 0, 2]]) = Inr [[[2, 0], [0, 2]], [[2, 0], [0, 2]]]"
      by (simp add: f view_eval) (simp add: chunks_eval)
    show "matmul3 [[[1 / 2000000, 0]], [[1, 0]]] [[[2, 0], [0, 2]], [[2, 0], [0, 2]]] =
          Inr [[[1 / 1000000, 0]], [[2, 0]]]"
      by (simp add: tensor_eval)
    show "view2 (relation_embedding_dim ?M) (flatten3 (renorm [[[1 / 1000000, 0]], [[2, 0]]] 1)) =
          Inr [[?p, 0], [?q, 0]]"
      unfolding rn by (simp add: f view_eval) (simp add: chunks_eval)
    show "matmul3 [[[0, 0]], [[0, 0]]] [[[2, 0], [0, 2]], [[2, 0], [0, 2]]] =
          Inr [[[0, 0]], [[0, 0]]]"
      by (simp add: tensor_eval)
    show "view2 (relation_embedding_dim ?M) (flatten3 (renorm [[[0, 0]], [[0, 0]]] 1)) =
          Inr [[0, 0], [0, 0]]"
      unfolding rz by (simp add: f view_eval) (simp add: chunks_eval)
    show "ew2 (+) [[?p, 0], [?q, 0]] [[0, 0], [0, 0]] = Inr [[?p, 0], [?q, 0]]"
      by (simp add: tensor_eval)
    show "ew2 (-) [[?p, 0], [?q, 0]] [[0, 0], [0, 0]] = Inr [[?p, 0], [?q, 0]]"
      by (simp add: tensor_eval)
  qed
  then have code: "TransR_score_hrt ?M [(0, 0, 2), (1, 0, 2)] =
                   Inr ([[- (?p\<^sup>2)], [- (?q\<^sup>2)]], ?M)"
    unfolding st by (simp add: neg_sq_norm_sum)
  have spec: "spec_TransR_score [1 / 2000000, 0] [0, 0] [0, 0] [[2, 0], [0, 2]] =
              - ((1 / 1000000)\<^sup>2)"
    by (simp add: spec_TransR_score_def spec_project_id2 clip_row_def l2norm_pair0 neg_sq_norm_sum)
  show ?thesis using n0 N2 rn lt code spec by simp
qed

end
